theory Spec2Isabelle
  imports Complex_Main
begin

section \<open>Conventions\<close>

text \<open>
  Python floats are embedded as \<^typ>\<open>real\<close>: rounding, overflow and the IEEE special
  values are outside this development.  Exceptions are values of the type \<open>py_exn\<close>,
  and a computation that may raise returns \<open>py_exn + 'a\<close> with \<open>Inl\<close> for the exception.
\<close>

datatype py_exn = ZeroDivisionError | KeyError | IndexError | ValueError | TypeError

definition raise_bind :: "py_exn + 'a \<Rightarrow> ('a \<Rightarrow> py_exn + 'b) \<Rightarrow> py_exn + 'b" where
  "raise_bind m f = (case m of Inl e \<Rightarrow> Inl e | Inr v \<Rightarrow> f v)"

text \<open>\<open>np.clip(a, a_min, a_max)\<close> is \<open>minimum(a_max, maximum(a, a_min))\<close>.\<close>

definition np_clip :: "real \<Rightarrow> real \<Rightarrow> real \<Rightarrow> real" where
  "np_clip a a_min a_max = min a_max (max a a_min)"

section \<open>stress\_model.py\<close>

text \<open>
  \<open>OUTPUT_LABELS\<close> maps a level to its icon and label.  The icons are single Unicode
  characters, given here by their code points.
\<close>

definition OUTPUT_LABELS :: "string \<rightharpoonup> (nat \<times> string)" where
  "OUTPUT_LABELS = map_of
     [(''calm'', (0x1F7E2, ''Calm'')),
      (''mild'', (0x1F7E1, ''Slight Stress'')),
      (''high'', (0x1F534, ''High Stress / Possible Deception Indicators''))]"

record StressScore =
  score :: real
  label :: string
  icon :: nat
  level :: string

record StressEstimator =
  weights :: "string \<rightharpoonup> real"
  scalers :: "string \<rightharpoonup> real"
  thresholds :: "string \<rightharpoonup> real"

text \<open>\<open>StressEstimator.__init__\<close> takes no argument and checks nothing.\<close>

definition StressEstimator_init :: StressEstimator where
  "StressEstimator_init =
     \<lparr> weights = map_of
         [(''eyebrow_raise'', 0.3),
          (''lip_tension'', 0.25),
          (''head_nod_intensity'', 0.2),
          (''symmetry_delta'', 0.15),
          (''blink_rate'', 0.1)],
       scalers = map_of
         [(''eyebrow_raise'', 0.08),
          (''lip_tension'', 1.0),
          (''head_nod_intensity'', 1.5),
          (''symmetry_delta'', 0.05),
          (''blink_rate'', 30.0)],
       thresholds = map_of
         [(''calm'', 0.35),
          (''mild'', 0.65)] \<rparr>"


text \<open>\<open>d.get(key, default)\<close>.\<close>

definition dict_get :: "('k \<rightharpoonup> 'v) \<Rightarrow> 'k \<Rightarrow> 'v \<Rightarrow> 'v" where
  "dict_get d key dflt = (case d key of None \<Rightarrow> dflt | Some v \<Rightarrow> v)"

text \<open>\<open>d[key]\<close>, which raises \<open>KeyError\<close> on a missing key.\<close>

definition dict_item :: "('k \<rightharpoonup> 'v) \<Rightarrow> 'k \<Rightarrow> py_exn + 'v" where
  "dict_item d key = (case d key of None \<Rightarrow> Inl KeyError | Some v \<Rightarrow> Inr v)"

text \<open>
  The feature vector is a \<open>dict\<close>, iterated in insertion order: a list of items.  The loop
  of \<open>predict\<close> (lines 49 to 53) carries \<open>weighted_sum\<close>; a float division by \<open>0.0\<close> raises.
\<close>

fun weighted_sum_loop :: "StressEstimator \<Rightarrow> (string \<times> real) list \<Rightarrow> real \<Rightarrow> py_exn + real" where
  "weighted_sum_loop self [] weighted_sum = Inr weighted_sum"
| "weighted_sum_loop self ((key, val) # items) weighted_sum =
     (let weight = dict_get (weights self) key 0.0;
          scale = dict_get (scalers self) key 1.0
      in if scale = 0 then Inl ZeroDivisionError
         else weighted_sum_loop self items (weighted_sum + weight * min (val / scale) 1.5))"

definition make_score :: "real \<Rightarrow> string \<Rightarrow> py_exn + StressScore" where
  "make_score sc label_key =
     raise_bind (dict_item OUTPUT_LABELS label_key)
       (\<lambda>(ic, lb). Inr \<lparr> score = sc, label = lb, icon = ic, level = label_key \<rparr>)"

definition predict :: "StressEstimator \<Rightarrow> (string \<times> real) list \<Rightarrow> py_exn + StressScore" where
  "predict self features =
     raise_bind (weighted_sum_loop self features 0.0) (\<lambda>weighted_sum.
       let sc = np_clip weighted_sum 0.0 1.5 in
       raise_bind (dict_item (thresholds self) ''calm'') (\<lambda>calm.
         if sc < calm then make_score sc ''calm''
         else raise_bind (dict_item (thresholds self) ''mild'') (\<lambda>mild.
           if sc < mild then make_score sc ''mild''
           else make_score sc ''high'')))"

text \<open>\<open>features[key] = val\<close>: replaces the value of a key in place, or appends a new item.\<close>

fun dict_set :: "(string \<times> real) list \<Rightarrow> string \<Rightarrow> real \<Rightarrow> (string \<times> real) list" where
  "dict_set [] key val = [(key, val)]"
| "dict_set ((k, v) # items) key val =
     (if k = key then (k, val) # items else (k, v) # dict_set items key val)"

text \<open>What one item adds to \<open>weighted_sum\<close>, and the clipped total under the default configuration.\<close>

definition contribution :: "StressEstimator \<Rightarrow> string \<times> real \<Rightarrow> real" where
  "contribution self item =
     dict_get (weights self) (fst item) 0 * min (snd item / dict_get (scalers self) (fst item) 1) 1.5"

definition default_score :: "(string \<times> real) list \<Rightarrow> real" where
  "default_score features =
     np_clip (sum_list (map (contribution StressEstimator_init) features)) 0 1.5"

section \<open>feature\_engineering.py\<close>

subsection \<open>Landmarks\<close>

text \<open>
  Modelled from the spec: \<open>LandmarkFrame\<close> is declared in \<open>face_mesh_module\<close>.  A frame
  carries the landmark array, one row of coordinates \<open>(x, y, z)\<close> per landmark, and a timestamp
  in seconds; its image is used for display only and is left out.
\<close>

type_synonym point = "real \<times> real \<times> real"

record LandmarkFrame =
  landmarks :: "point list"
  timestamp :: real

definition LEFT_EYE_LIDS :: "nat \<times> nat" where "LEFT_EYE_LIDS = (159, 145)"
definition RIGHT_EYE_LIDS :: "nat \<times> nat" where "RIGHT_EYE_LIDS = (386, 374)"
definition LEFT_EYE_HORIZONTAL :: "nat \<times> nat" where "LEFT_EYE_HORIZONTAL = (33, 133)"
definition RIGHT_EYE_HORIZONTAL :: "nat \<times> nat" where "RIGHT_EYE_HORIZONTAL = (362, 263)"
definition LEFT_EYEBROW :: "nat list" where "LEFT_EYEBROW = [55, 107, 46]"
definition RIGHT_EYEBROW :: "nat list" where "RIGHT_EYEBROW = [285, 336, 276]"
definition LEFT_LIP_CORNER :: nat where "LEFT_LIP_CORNER = 61"
definition RIGHT_LIP_CORNER :: nat where "RIGHT_LIP_CORNER = 291"
definition TOP_LIP :: nat where "TOP_LIP = 13"
definition BOTTOM_LIP :: nat where "BOTTOM_LIP = 14"
definition NOSE_TIP :: nat where "NOSE_TIP = 1"
definition CHIN :: nat where "CHIN = 152"
definition LEFT_CHEEK :: nat where "LEFT_CHEEK = 234"
definition RIGHT_CHEEK :: nat where "RIGHT_CHEEK = 454"

text \<open>\<open>landmarks[idx]\<close> with a non-negative index: \<open>IndexError\<close> past the last row.\<close>

definition landmark_at :: "point list \<Rightarrow> nat \<Rightarrow> py_exn + point" where
  "landmark_at lms idx = (if idx < length lms then Inr (lms ! idx) else Inl IndexError)"

text \<open>\<open>p[1]\<close>, the second coordinate of a row.\<close>

definition coord_y :: "point \<Rightarrow> real" where
  "coord_y p = fst (snd p)"

text \<open>Array arithmetic on rows: \<open>a + b\<close> and \<open>a * c\<close> for a scalar \<open>c\<close>.\<close>

definition point_add :: "point \<Rightarrow> point \<Rightarrow> point" where
  "point_add a b =
     (case a of (ax, ay, az) \<Rightarrow> case b of (bx, by, bz) \<Rightarrow> (ax + bx, ay + by, az + bz))"

definition point_scale :: "point \<Rightarrow> real \<Rightarrow> point" where
  "point_scale a c = (case a of (ax, ay, az) \<Rightarrow> (ax * c, ay * c, az * c))"

text \<open>\<open>_distance\<close>: the Euclidean norm of \<open>a - b\<close>.\<close>

definition distance :: "point \<Rightarrow> point \<Rightarrow> real" where
  "distance a b =
     (case a of (ax, ay, az) \<Rightarrow> case b of (bx, by, bz) \<Rightarrow>
        sqrt ((ax - bx)\<^sup>2 + (ay - by)\<^sup>2 + (az - bz)\<^sup>2))"

text \<open>The list comprehension \<open>[landmarks[idx] for idx in indices]\<close>.\<close>

fun gather :: "point list \<Rightarrow> nat list \<Rightarrow> py_exn + point list" where
  "gather lms [] = Inr []"
| "gather lms (idx # indices) =
     raise_bind (landmark_at lms idx) (\<lambda>p.
       raise_bind (gather lms indices) (\<lambda>ps. Inr (p # ps)))"

text \<open>
  \<open>_average_points\<close>: the mean over axis 0 of the selected rows.  It is only ever called with the
  two three-element eyebrow tuples; the conversion to single precision is a rounding step.
\<close>

definition average_points :: "nat list \<Rightarrow> point list \<Rightarrow> py_exn + point" where
  "average_points indices lms =
     raise_bind (gather lms indices) (\<lambda>points.
       let n = real (length points) in
       Inr (sum_list (map fst points) / n,
            sum_list (map (fst \<circ> snd) points) / n,
            sum_list (map (snd \<circ> snd) points) / n))"

subsection \<open>TemporalMetric\<close>

record TemporalMetric =
  window_seconds :: real
  timestamps :: "real list"

text \<open>\<open>TemporalMetric(window_seconds=w)\<close>: the deque of timestamps starts empty.\<close>

definition TemporalMetric_init :: "real \<Rightarrow> TemporalMetric" where
  "TemporalMetric_init w = \<lparr>window_seconds = w, timestamps = []\<rparr>"

text \<open>The \<open>while\<close> loop of \<open>add\<close>: pop from the left while the head is older than the window.\<close>

fun evict_stale :: "real \<Rightarrow> real \<Rightarrow> real list \<Rightarrow> real list" where
  "evict_stale window ts [] = []"
| "evict_stale window ts (t0 # rest) =
     (if ts - t0 > window then evict_stale window ts rest else t0 # rest)"

definition TemporalMetric_add :: "TemporalMetric \<Rightarrow> real \<Rightarrow> TemporalMetric" where
  "TemporalMetric_add self ts =
     self\<lparr>timestamps := evict_stale (window_seconds self) ts (timestamps self @ [ts])\<rparr>"

definition count :: "TemporalMetric \<Rightarrow> nat" where
  "count self = length (timestamps self)"

subsection \<open>Rolling windows\<close>

text \<open>
  \<open>deque(maxlen=n)\<close>: \<open>append\<close> adds on the right and, when that exceeds \<open>maxlen\<close>, drops the
  leftmost element.  With \<open>maxlen = 0\<close> the deque stays empty.
\<close>

record Deque =
  maxlen :: nat
  elems :: "real list"

definition deque_append :: "Deque \<Rightarrow> real \<Rightarrow> Deque" where
  "deque_append d v =
     (let xs = elems d @ [v]
      in d\<lparr>elems := (if length xs > maxlen d then tl xs else xs)\<rparr>)"

text \<open>\<open>np.mean\<close> of a sequence; of an empty one NumPy returns \<open>nan\<close>, here \<open>None\<close>.\<close>

definition np_mean :: "real list \<Rightarrow> real option" where
  "np_mean xs = (if xs = [] then None else Some (sum_list xs / real (length xs)))"

subsection \<open>FeatureExtractor\<close>

record FeatureExtractor =
  smoothing_window :: int
  blink_threshold :: real
  previous_blink_state :: bool
  metrics_history :: "string \<rightharpoonup> Deque"
  blink_events :: TemporalMetric
  previous_nose_height :: "real option"

text \<open>
  \<open>__init__\<close>: \<open>deque(maxlen=smoothing_window)\<close> raises \<open>ValueError\<close> on a negative length.
  The defaults of the three arguments are 5, 0.23 and 60.0.
\<close>

definition FeatureExtractor_init :: "int \<Rightarrow> real \<Rightarrow> real \<Rightarrow> py_exn + FeatureExtractor" where
  "FeatureExtractor_init smoothing_win blink_thr blink_window_seconds =
     (if smoothing_win < 0 then Inl ValueError
      else Inr \<lparr> smoothing_window = smoothing_win,
                 blink_threshold = blink_thr,
                 previous_blink_state = False,
                 metrics_history = map_of
                   [(''eyebrow'', \<lparr>maxlen = nat smoothing_win, elems = []\<rparr>),
                    (''lip_tension'', \<lparr>maxlen = nat smoothing_win, elems = []\<rparr>),
                    (''nod'', \<lparr>maxlen = nat smoothing_win, elems = []\<rparr>),
                    (''symmetry'', \<lparr>maxlen = nat smoothing_win, elems = []\<rparr>)],
                 blink_events = TemporalMetric_init blink_window_seconds,
                 previous_nose_height = None \<rparr>)"

text \<open>
  The last two statements of the four smoothed metrics:
  \<open>self.metrics_history[key].append(value)\<close>, then the mean of that deque is returned.
\<close>

definition push_and_mean ::
    "FeatureExtractor \<Rightarrow> string \<Rightarrow> real \<Rightarrow> py_exn + (real option \<times> FeatureExtractor)" where
  "push_and_mean self key v =
     raise_bind (dict_item (metrics_history self) key) (\<lambda>d.
       let d' = deque_append d v
       in Inr (np_mean (elems d'), self\<lparr>metrics_history := (metrics_history self)(key \<mapsto> d')\<rparr>))"

definition eye_aspect_ratio :: "point list \<Rightarrow> nat \<times> nat \<Rightarrow> nat \<times> nat \<Rightarrow> py_exn + real" where
  "eye_aspect_ratio lms lids horizontal_pair =
     raise_bind (landmark_at lms (fst lids)) (\<lambda>upper.
     raise_bind (landmark_at lms (snd lids)) (\<lambda>lower.
     raise_bind (landmark_at lms (fst horizontal_pair)) (\<lambda>h0.
     raise_bind (landmark_at lms (snd horizontal_pair)) (\<lambda>h1.
       let horizontal = distance h0 h1
       in Inr (distance upper lower / max horizontal 0.00001)))))"

text \<open>
  Lines 94 to 99 of \<open>_compute_blink_rate\<close>: the edge detector and the rate, from the averaged
  eye ratio and the frame's timestamp.
\<close>

definition blink_update :: "FeatureExtractor \<Rightarrow> real \<Rightarrow> real \<Rightarrow> real \<times> FeatureExtractor" where
  "blink_update self eye_ratio ts =
     (let is_blinking = eye_ratio < blink_threshold self;
          events = (if is_blinking \<and> \<not> previous_blink_state self
                    then TemporalMetric_add (blink_events self) ts
                    else blink_events self);
          minutes = max (window_seconds events / 60.0) 0.001
      in (real (count events) / minutes,
          self\<lparr>blink_events := events, previous_blink_state := is_blinking\<rparr>))"

definition compute_blink_rate ::
    "FeatureExtractor \<Rightarrow> LandmarkFrame \<Rightarrow> py_exn + (real \<times> FeatureExtractor)" where
  "compute_blink_rate self frame =
     raise_bind (eye_aspect_ratio (landmarks frame) LEFT_EYE_LIDS LEFT_EYE_HORIZONTAL) (\<lambda>left_ratio.
     raise_bind (eye_aspect_ratio (landmarks frame) RIGHT_EYE_LIDS RIGHT_EYE_HORIZONTAL) (\<lambda>right_ratio.
       let eye_ratio = (left_ratio + right_ratio) * 0.5
       in Inr (blink_update self eye_ratio (timestamp frame))))"

definition compute_eyebrow_raise ::
    "FeatureExtractor \<Rightarrow> point list \<Rightarrow> py_exn + (real option \<times> FeatureExtractor)" where
  "compute_eyebrow_raise self lms =
     raise_bind (average_points LEFT_EYEBROW lms) (\<lambda>left_brow.
     raise_bind (average_points RIGHT_EYEBROW lms) (\<lambda>right_brow.
     raise_bind (landmark_at lms (fst LEFT_EYE_LIDS)) (\<lambda>left_lid.
     raise_bind (landmark_at lms (fst RIGHT_EYE_LIDS)) (\<lambda>right_lid.
       let anchor = point_scale (point_add left_lid right_lid) 0.5;
           left_raise = \<bar>coord_y left_brow - coord_y anchor\<bar>;
           right_raise = \<bar>coord_y right_brow - coord_y anchor\<bar>;
           v = (left_raise + right_raise) * 0.5
       in push_and_mean self ''eyebrow'' v))))"

definition compute_lip_tension ::
    "FeatureExtractor \<Rightarrow> point list \<Rightarrow> py_exn + (real option \<times> FeatureExtractor)" where
  "compute_lip_tension self lms =
     raise_bind (landmark_at lms LEFT_LIP_CORNER) (\<lambda>left_corner.
     raise_bind (landmark_at lms RIGHT_LIP_CORNER) (\<lambda>right_corner.
     raise_bind (landmark_at lms TOP_LIP) (\<lambda>top.
     raise_bind (landmark_at lms BOTTOM_LIP) (\<lambda>bottom.
       let mouth_width = distance left_corner right_corner;
           mouth_height = distance top bottom;
           raw_ratio = mouth_width / max mouth_height 0.00001;
           tension = np_clip ((raw_ratio - 5.0) / 55.0) 0.0 1.0
       in push_and_mean self ''lip_tension'' tension))))"

definition compute_head_nod ::
    "FeatureExtractor \<Rightarrow> LandmarkFrame \<Rightarrow> py_exn + (real option \<times> FeatureExtractor)" where
  "compute_head_nod self frame =
     raise_bind (landmark_at (landmarks frame) NOSE_TIP) (\<lambda>nose.
     raise_bind (landmark_at (landmarks frame) CHIN) (\<lambda>chin.
       let nose_y = coord_y nose;
           chin_y = coord_y chin;
           head_length = \<bar>chin_y - nose_y\<bar>
       in case previous_nose_height self of
            None \<Rightarrow> Inr (Some 0.0, self\<lparr>previous_nose_height := Some nose_y\<rparr>)
          | Some previous \<Rightarrow>
              let delta = \<bar>nose_y - previous\<bar> / max head_length 0.00001
              in push_and_mean (self\<lparr>previous_nose_height := Some nose_y\<rparr>) ''nod'' delta))"

definition compute_symmetry ::
    "FeatureExtractor \<Rightarrow> point list \<Rightarrow> py_exn + (real option \<times> FeatureExtractor)" where
  "compute_symmetry self lms =
     raise_bind (landmark_at lms LEFT_CHEEK) (\<lambda>left_cheek.
     raise_bind (landmark_at lms RIGHT_CHEEK) (\<lambda>right_cheek.
     raise_bind (landmark_at lms NOSE_TIP) (\<lambda>nose.
       let left_dist = distance left_cheek nose;
           right_dist = distance right_cheek nose;
           symmetry_score = \<bar>left_dist - right_dist\<bar> / max ((left_dist + right_dist) * 0.5) 0.00001
       in push_and_mean self ''symmetry'' symmetry_score)))"

text \<open>
  The states an extractor can be in: the one the constructor returns, and any state left by a
  call of one of the five metric methods that returned.
\<close>

inductive reachable :: "FeatureExtractor \<Rightarrow> bool" where
  constructed: "FeatureExtractor_init k thr w = Inr self \<Longrightarrow> reachable self"
| after_eyebrow: "reachable self \<Longrightarrow> compute_eyebrow_raise self lms = Inr (r, self') \<Longrightarrow> reachable self'"
| after_lip: "reachable self \<Longrightarrow> compute_lip_tension self lms = Inr (r, self') \<Longrightarrow> reachable self'"
| after_nod: "reachable self \<Longrightarrow> compute_head_nod self frame = Inr (r, self') \<Longrightarrow> reachable self'"
| after_symmetry: "reachable self \<Longrightarrow> compute_symmetry self lms = Inr (r, self') \<Longrightarrow> reachable self'"
| after_blink: "reachable self \<Longrightarrow> compute_blink_rate self frame = Inr (b, self') \<Longrightarrow> reachable self'"

text \<open>Feeding a sequence of events to a counter, and of eye ratios to the blink detector.\<close>

definition add_all :: "TemporalMetric \<Rightarrow> real list \<Rightarrow> TemporalMetric" where
  "add_all self tss = foldl TemporalMetric_add self tss"

definition blink_run :: "FeatureExtractor \<Rightarrow> (real \<times> real) list \<Rightarrow> FeatureExtractor" where
  "blink_run self samples = foldl (\<lambda>s (eye_ratio, ts). snd (blink_update s eye_ratio ts)) self samples"

text \<open>Line 93 of \<open>_compute_blink_rate\<close>: the mean of the two eye aspect ratios of a landmark array.\<close>

definition eye_ratio_of :: "point list \<Rightarrow> real" where
  "eye_ratio_of lms =
     (distance (lms ! 159) (lms ! 145) / max (distance (lms ! 33) (lms ! 133)) 0.00001
      + distance (lms ! 386) (lms ! 374) / max (distance (lms ! 362) (lms ! 263)) 0.00001) * 0.5"

text \<open>
  What holds of the rolling windows of a reachable extractor: each of the four is present with
  the length bound given to the constructor and holds non-negative values, and the values of the
  lip-tension window are at most 1.
\<close>

definition window_nonneg :: "FeatureExtractor \<Rightarrow> string \<Rightarrow> bool" where
  "window_nonneg self key \<longleftrightarrow>
     (\<exists>d. metrics_history self key = Some d \<and> maxlen d = nat (smoothing_window self)
        \<and> (\<forall>v\<in>set (elems d). 0 \<le> v))"

definition lip_bounded :: "FeatureExtractor \<Rightarrow> bool" where
  "lip_bounded self \<longleftrightarrow>
     (\<exists>d. metrics_history self ''lip_tension'' = Some d \<and> (\<forall>v\<in>set (elems d). v \<le> 1))"

definition history_ok :: "FeatureExtractor \<Rightarrow> bool" where
  "history_ok self \<longleftrightarrow>
     window_nonneg self ''eyebrow'' \<and> window_nonneg self ''lip_tension''
     \<and> window_nonneg self ''nod'' \<and> window_nonneg self ''symmetry'' \<and> lip_bounded self"

text \<open>
  A smoothed metric that returned through its last two statements: it pushed \<open>x\<close> into the
  window stored under \<open>key\<close>, left a window that is not empty, and returned the mean \<open>v\<close> of it.
\<close>

definition smoothed_by ::
    "FeatureExtractor \<Rightarrow> string \<Rightarrow> real \<Rightarrow> py_exn + (real option \<times> FeatureExtractor) \<Rightarrow> real \<Rightarrow> bool" where
  "smoothed_by self key x res v \<longleftrightarrow>
     (\<exists>d. metrics_history self key = Some d
        \<and> res = Inr (Some v, self\<lparr>metrics_history := (metrics_history self)(key \<mapsto> deque_append d x)\<rparr>)
        \<and> elems (deque_append d x) \<noteq> []
        \<and> v = sum_list (elems (deque_append d x)) / real (length (elems (deque_append d x))))"

text \<open>The extractor that \<open>FeatureExtractor(smoothing_window=0)\<close> returns.\<close>

definition zero_window_extractor :: FeatureExtractor where
  "zero_window_extractor =
     \<lparr> smoothing_window = 0,
       blink_threshold = 0.23,
       previous_blink_state = False,
       metrics_history = map_of
         [(''eyebrow'', \<lparr>maxlen = 0, elems = []\<rparr>),
          (''lip_tension'', \<lparr>maxlen = 0, elems = []\<rparr>),
          (''nod'', \<lparr>maxlen = 0, elems = []\<rparr>),
          (''symmetry'', \<lparr>maxlen = 0, elems = []\<rparr>)],
       blink_events = TemporalMetric_init 60.0,
       previous_nose_height = None \<rparr>"

section \<open>The scorer under its default configuration\<close>

lemma default_weight_nonneg: "0 \<le> dict_get (weights StressEstimator_init) key 0"
  by (simp add: dict_get_def StressEstimator_init_def)

lemma default_scale_pos: "0 < dict_get (scalers StressEstimator_init) key 1"
  by (simp add: dict_get_def StressEstimator_init_def)

lemma weighted_sum_loop_default:
  "weighted_sum_loop StressEstimator_init items acc =
     Inr (acc + sum_list (map (contribution StressEstimator_init) items))"
proof (induction items arbitrary: acc)
  case Nil
  show ?case by simp
next
  case (Cons item items)
  obtain key val where item: "item = (key, val)" by (cases item)
  have "dict_get (scalers StressEstimator_init) key 1 \<noteq> 0"
    using default_scale_pos [of key] by simp
  then show ?case
    by (simp add: item Cons.IH contribution_def Let_def add.assoc)
qed

lemma default_thresholds:
  "dict_item (thresholds StressEstimator_init) ''calm'' = Inr 0.35"
  "dict_item (thresholds StressEstimator_init) ''mild'' = Inr 0.65"
  by (simp_all add: dict_item_def StressEstimator_init_def)

lemma make_score_levels:
  "make_score sc ''calm'' = Inr \<lparr> score = sc, label = ''Calm'', icon = 0x1F7E2, level = ''calm'' \<rparr>"
  "make_score sc ''mild'' = Inr \<lparr> score = sc, label = ''Slight Stress'', icon = 0x1F7E1, level = ''mild'' \<rparr>"
  "make_score sc ''high'' = Inr \<lparr> score = sc,
     label = ''High Stress / Possible Deception Indicators'', icon = 0x1F534, level = ''high'' \<rparr>"
  by (simp_all add: make_score_def raise_bind_def dict_item_def OUTPUT_LABELS_def)

lemma predict_default:
  "predict StressEstimator_init features =
     (if default_score features < 0.35 then make_score (default_score features) ''calm''
      else if default_score features < 0.65 then make_score (default_score features) ''mild''
      else make_score (default_score features) ''high'')"
  by (simp add: predict_def weighted_sum_loop_default raise_bind_def default_thresholds
      default_score_def Let_def)

lemma predict_default_score:
  "\<exists>s. predict StressEstimator_init features = Inr s \<and> score s = default_score features"
  by (simp add: predict_default make_score_levels)

lemma default_score_range: "0 \<le> default_score features \<and> default_score features \<le> 1.5"
  by (simp add: default_score_def np_clip_def)

text \<open>
  Claim C1.  For every feature vector, \<open>predict\<close> on the estimator built by the constructor
  returns a \<open>StressScore\<close> (it does not raise) whose \<open>score\<close> lies in the closed interval
  from 0 to 1.5.
\<close>

theorem predict_score_clamped:
  "\<exists>s. predict StressEstimator_init features = Inr s \<and> 0 \<le> score s \<and> score s \<le> 1.5"
  using predict_default_score [of features] default_score_range [of features] by auto

lemma contribution_mono:
  "v \<le> v' \<Longrightarrow> contribution StressEstimator_init (key, v) \<le> contribution StressEstimator_init (key, v')"
proof -
  assume le: "v \<le> v'"
  have s: "0 < dict_get (scalers StressEstimator_init) key 1" by (rule default_scale_pos)
  have "v / dict_get (scalers StressEstimator_init) key 1 \<le> v' / dict_get (scalers StressEstimator_init) key 1"
    using le s by (simp add: divide_right_mono)
  then have "min (v / dict_get (scalers StressEstimator_init) key 1) 1.5
      \<le> min (v' / dict_get (scalers StressEstimator_init) key 1) 1.5"
    by (intro min.mono) simp_all
  then show ?thesis
    unfolding contribution_def fst_conv snd_conv
    by (rule mult_left_mono) (rule default_weight_nonneg)
qed

lemma sum_dict_set_mono:
  "v \<le> v' \<Longrightarrow>
   sum_list (map (contribution StressEstimator_init) (dict_set features key v))
     \<le> sum_list (map (contribution StressEstimator_init) (dict_set features key v'))"
proof (induction features)
  case Nil
  then show ?case using contribution_mono [of v v' key] by simp
next
  case (Cons item features)
  obtain k u where item: "item = (k, u)" by (cases item)
  show ?case
    using Cons contribution_mono [of v v' key] by (auto simp add: item)
qed

lemma default_score_mono:
  "v \<le> v' \<Longrightarrow> default_score (dict_set features key v) \<le> default_score (dict_set features key v')"
  unfolding default_score_def np_clip_def
  by (intro min.mono max.mono sum_dict_set_mono) simp_all

text \<open>
  Claim C2.  With every other item of the feature vector held fixed, raising the value stored
  under one key never lowers the score returned by \<open>predict\<close>.
\<close>

theorem predict_monotone:
  "v \<le> v' \<Longrightarrow>
   \<exists>s s'. predict StressEstimator_init (dict_set features key v) = Inr s
       \<and> predict StressEstimator_init (dict_set features key v') = Inr s'
       \<and> score s \<le> score s'"
  using predict_default_score [of "dict_set features key v"]
    predict_default_score [of "dict_set features key v'"]
    default_score_mono [of v v' features key] by auto

theorem predict_monotone_witness:
  "(0.02::real) \<le> 0.08 \<and>
   (\<exists>s s'. predict StressEstimator_init (dict_set [(''eyebrow_raise'', 0.01), (''lip_tension'', 0.5)] ''eyebrow_raise'' 0.02) = Inr s
       \<and> predict StressEstimator_init (dict_set [(''eyebrow_raise'', 0.01), (''lip_tension'', 0.5)] ''eyebrow_raise'' 0.08) = Inr s'
       \<and> score s \<le> score s')"
  using predict_monotone [of "0.02" "0.08" "[(''eyebrow_raise'', 0.01), (''lip_tension'', 0.5)]" "''eyebrow_raise''"]
  by simp

lemma predict_level_by_score:
  "\<exists>s. predict StressEstimator_init features = Inr s \<and> score s = default_score features
     \<and> level s = (if default_score features < 0.35 then ''calm''
                  else if default_score features < 0.65 then ''mild'' else ''high'')"
  by (simp add: predict_default make_score_levels)

lemma boundary_scores:
  "default_score [(''lip_tension'', 1), (''blink_rate'', 30)] = 0.35"
  "default_score [(''eyebrow_raise'', 0.08), (''lip_tension'', 1), (''blink_rate'', 30)] = 0.65"
  by (simp_all add: default_score_def contribution_def dict_get_def StressEstimator_init_def np_clip_def)

lemma predict_at_score:
  "default_score features = c \<Longrightarrow>
   \<exists>s. predict StressEstimator_init features = Inr s \<and> score s = c
     \<and> level s = (if c < 0.35 then ''calm'' else if c < 0.65 then ''mild'' else ''high'')"
  using predict_level_by_score [of features] by auto

text \<open>
  Claim C3.  The level is chosen by half-open intervals: a score below 0.35 is \<open>calm\<close>, a score
  from 0.35 up to but excluding 0.65 is \<open>mild\<close>, a score of 0.65 or more is \<open>high\<close>.  A feature
  vector whose score is exactly 0.35 is \<open>mild\<close>, and one whose score is exactly 0.65 is \<open>high\<close>.
\<close>

theorem predict_half_open_levels:
  "(\<exists>s. predict StressEstimator_init features = Inr s
      \<and> (score s < 0.35 \<longrightarrow> level s = ''calm'')
      \<and> (0.35 \<le> score s \<and> score s < 0.65 \<longrightarrow> level s = ''mild'')
      \<and> (0.65 \<le> score s \<longrightarrow> level s = ''high''))
   \<and> (\<exists>s. predict StressEstimator_init [(''lip_tension'', 1), (''blink_rate'', 30)] = Inr s
      \<and> score s = 0.35 \<and> level s = ''mild'')
   \<and> (\<exists>s. predict StressEstimator_init
          [(''eyebrow_raise'', 0.08), (''lip_tension'', 1), (''blink_rate'', 30)] = Inr s
      \<and> score s = 0.65 \<and> level s = ''high'')"
proof (intro conjI)
  show "\<exists>s. predict StressEstimator_init features = Inr s
      \<and> (score s < 0.35 \<longrightarrow> level s = ''calm'')
      \<and> (0.35 \<le> score s \<and> score s < 0.65 \<longrightarrow> level s = ''mild'')
      \<and> (0.65 \<le> score s \<longrightarrow> level s = ''high'')"
    using predict_level_by_score [of features] by auto
next
  show "\<exists>s. predict StressEstimator_init [(''lip_tension'', 1), (''blink_rate'', 30)] = Inr s
      \<and> score s = 0.35 \<and> level s = ''mild''"
    using predict_at_score [OF boundary_scores(1)] by simp
next
  show "\<exists>s. predict StressEstimator_init
          [(''eyebrow_raise'', 0.08), (''lip_tension'', 1), (''blink_rate'', 30)] = Inr s
      \<and> score s = 0.65 \<and> level s = ''high''"
    using predict_at_score [OF boundary_scores(2)] by simp
qed

theorem predict_half_open_levels_witness:
  "(\<exists>s. predict StressEstimator_init [] = Inr s \<and> score s < 0.35 \<and> level s = ''calm'')
   \<and> (\<exists>s. predict StressEstimator_init [(''lip_tension'', 1), (''blink_rate'', 30)] = Inr s
      \<and> 0.35 \<le> score s \<and> score s < 0.65 \<and> level s = ''mild'')
   \<and> (\<exists>s. predict StressEstimator_init
         [(''eyebrow_raise'', 0.08), (''lip_tension'', 1), (''blink_rate'', 30)] = Inr s
      \<and> 0.65 \<le> score s \<and> level s = ''high'')"
proof (intro conjI)
  have "default_score [] = 0" by (simp add: default_score_def np_clip_def)
  from predict_at_score [OF this]
  show "\<exists>s. predict StressEstimator_init [] = Inr s \<and> score s < 0.35 \<and> level s = ''calm''"
    using predict_half_open_levels [of "[]"] by auto
next
  show "\<exists>s. predict StressEstimator_init [(''lip_tension'', 1), (''blink_rate'', 30)] = Inr s
      \<and> 0.35 \<le> score s \<and> score s < 0.65 \<and> level s = ''mild''"
    using predict_half_open_levels [of "[]"] by auto
next
  show "\<exists>s. predict StressEstimator_init
         [(''eyebrow_raise'', 0.08), (''lip_tension'', 1), (''blink_rate'', 30)] = Inr s
      \<and> 0.65 \<le> score s \<and> level s = ''high''"
    using predict_half_open_levels [of "[]"] by auto
qed

section \<open>The windowed event counter\<close>

lemma evict_stale_sorted:
  "sorted xs \<Longrightarrow> evict_stale w t xs = filter (\<lambda>x. t - x \<le> w) xs"
proof (induction xs)
  case Nil
  show ?case by simp
next
  case (Cons x xs)
  show ?case
  proof (cases "t - x > w")
    case True
    with Cons show ?thesis by simp
  next
    case False
    have "\<forall>y\<in>set xs. t - y \<le> w"
      using Cons.prems False by auto
    then have "filter (\<lambda>x. t - x \<le> w) xs = xs" by simp
    with False show ?thesis by simp
  qed
qed

lemma add_all_snoc: "add_all tm (tss @ [t]) = TemporalMetric_add (add_all tm tss) t"
  by (simp add: add_all_def)

lemma add_all_window: "window_seconds (add_all tm tss) = window_seconds tm"
  by (induction tss rule: rev_induct) (simp_all add: add_all_def TemporalMetric_add_def)

lemma add_all_sorted:
  "sorted (tss @ [t]) \<Longrightarrow>
   timestamps (add_all (TemporalMetric_init w) (tss @ [t])) = filter (\<lambda>x. t - x \<le> w) (tss @ [t])"
proof (induction tss arbitrary: t rule: rev_induct)
  case Nil
  show ?case by (simp add: add_all_def TemporalMetric_add_def TemporalMetric_init_def)
next
  case (snoc u tss)
  have su: "sorted (tss @ [u])" and ut: "u \<le> t"
    using snoc.prems by (auto simp add: sorted_append)
  have "sorted (filter (\<lambda>x. u - x \<le> w) (tss @ [u]))"
    using su by (rule sorted_wrt_filter)
  moreover have "\<forall>x\<in>set (filter (\<lambda>x. u - x \<le> w) (tss @ [u])). x \<le> t"
    using snoc.prems by (auto simp add: sorted_append)
  ultimately have st: "sorted (filter (\<lambda>x. u - x \<le> w) (tss @ [u]) @ [t])"
    by (simp only: sorted_append) simp
  have "timestamps (add_all (TemporalMetric_init w) ((tss @ [u]) @ [t]))
      = evict_stale w t (filter (\<lambda>x. u - x \<le> w) (tss @ [u]) @ [t])"
    unfolding add_all_snoc [of _ "tss @ [u]" t]
    by (simp only: TemporalMetric_add_def add_all_window snoc.IH [OF su])
       (simp add: TemporalMetric_init_def)
  also have "\<dots> = filter (\<lambda>x. t - x \<le> w) (filter (\<lambda>x. u - x \<le> w) (tss @ [u]) @ [t])"
    by (rule evict_stale_sorted [OF st])
  also have "\<dots> = filter (\<lambda>x. t - x \<le> w) ((tss @ [u]) @ [t])"
  proof -
    have "\<And>x. t - x \<le> w \<Longrightarrow> u - x \<le> w" using ut by simp
    then have "filter (\<lambda>x. t - x \<le> w) (filter (\<lambda>x. u - x \<le> w) (tss @ [u]))
        = filter (\<lambda>x. t - x \<le> w) (tss @ [u])"
      by (simp only: filter_filter) (metis (mono_tags, lifting) filter_cong)
    then show ?thesis by (simp only: filter_append)
  qed
  finally show ?case .
qed

text \<open>
  Claim C5.  Feed non-decreasing timestamps to a fresh counter of window \<open>w\<close>.  After each
  \<open>add\<close>, every stored timestamp is at most \<open>w\<close> older than the one just added, and \<open>count\<close> is
  the number of stored events, which is the number of events fed so far that are at most \<open>w\<close>
  older than the latest.  Events that all lie within \<open>w\<close> of each other are all counted.  For a
  window \<open>w\<close> that is not negative, an event followed by one \<open>w + 1\<close> seconds later leaves a count
  of 1: the first is evicted.
\<close>

theorem windowed_counter:
  "(sorted (tss @ [t]) \<longrightarrow>
      (\<forall>x\<in>set (timestamps (add_all (TemporalMetric_init w) (tss @ [t]))). t - x \<le> w)
      \<and> count (add_all (TemporalMetric_init w) (tss @ [t]))
          = length (timestamps (add_all (TemporalMetric_init w) (tss @ [t])))
      \<and> count (add_all (TemporalMetric_init w) (tss @ [t]))
          = length (filter (\<lambda>x. t - x \<le> w) (tss @ [t])))
   \<and> (sorted tss \<and> (\<forall>x\<in>set tss. \<forall>y\<in>set tss. \<bar>x - y\<bar> \<le> w) \<longrightarrow>
      count (add_all (TemporalMetric_init w) tss) = length tss)
   \<and> (0 \<le> w \<longrightarrow>
      timestamps (add_all (TemporalMetric_init w) [t, t + (w + 1)]) = [t + (w + 1)]
      \<and> count (add_all (TemporalMetric_init w) [t, t + (w + 1)]) = 1)"
proof (intro conjI impI)
  assume s: "sorted (tss @ [t])"
  show "\<forall>x\<in>set (timestamps (add_all (TemporalMetric_init w) (tss @ [t]))). t - x \<le> w"
    unfolding add_all_sorted [OF s] by simp
  show "count (add_all (TemporalMetric_init w) (tss @ [t]))
          = length (timestamps (add_all (TemporalMetric_init w) (tss @ [t])))"
    by (simp only: count_def)
  show "count (add_all (TemporalMetric_init w) (tss @ [t]))
          = length (filter (\<lambda>x. t - x \<le> w) (tss @ [t]))"
    by (simp only: count_def add_all_sorted [OF s])
next
  assume a: "sorted tss \<and> (\<forall>x\<in>set tss. \<forall>y\<in>set tss. \<bar>x - y\<bar> \<le> w)"
  show "count (add_all (TemporalMetric_init w) tss) = length tss"
  proof (cases tss rule: rev_cases)
    case Nil
    then show ?thesis by (simp add: count_def add_all_def TemporalMetric_init_def)
  next
    case (snoc us u)
    have s: "sorted (us @ [u])" using a snoc by simp
    have "\<forall>x\<in>set (us @ [u]). u - x \<le> w"
    proof
      fix x assume x: "x \<in> set (us @ [u])"
      have "u \<in> set tss" using snoc by simp
      moreover have "x \<in> set tss" using x snoc by simp
      ultimately have "\<bar>u - x\<bar> \<le> w" using a by blast
      then show "u - x \<le> w" by simp
    qed
    then have "filter (\<lambda>x. u - x \<le> w) (us @ [u]) = us @ [u]"
      by (simp only: filter_True)
    then show ?thesis
      by (simp only: snoc count_def add_all_sorted [OF s])
  qed
next
  assume w: "0 \<le> w"
  show "timestamps (add_all (TemporalMetric_init w) [t, t + (w + 1)]) = [t + (w + 1)]"
    using w by (simp add: add_all_def TemporalMetric_add_def TemporalMetric_init_def)
  then show "count (add_all (TemporalMetric_init w) [t, t + (w + 1)]) = 1"
    by (simp add: count_def)
qed

theorem windowed_counter_witness:
  "sorted ([0, 10, 30] @ [65 :: real])
   \<and> timestamps (add_all (TemporalMetric_init 60) ([0, 10, 30] @ [65])) = [10, 30, 65]
   \<and> count (add_all (TemporalMetric_init 60) ([0, 10, 30] @ [65])) = 3
   \<and> count (add_all (TemporalMetric_init 60) [0, 10, 30]) = 3
   \<and> count (add_all (TemporalMetric_init 60) [5, 5 + (60 + 1)]) = 1"
  using windowed_counter [of "[0, 10, 30]" 65 60] windowed_counter [of "[0, 10, 30]" 5 60]
  by (simp add: add_all_def TemporalMetric_add_def TemporalMetric_init_def count_def)

section \<open>Blink detection and the first head-nod frame\<close>

lemma landmark_at_in_range: "idx < length lms \<Longrightarrow> landmark_at lms idx = Inr (lms ! idx)"
  by (simp add: landmark_at_def)

lemma raise_bind_Inr: "raise_bind (Inr v) f = f v"
  by (simp add: raise_bind_def)

lemma distance_nonneg: "0 \<le> distance a b"
  by (cases a, cases b) (simp add: distance_def)

lemma eye_aspect_ratio_in_range:
  assumes "fst lids < length lms" "snd lids < length lms"
    "fst pair < length lms" "snd pair < length lms"
  shows "eye_aspect_ratio lms lids pair =
    Inr (distance (lms ! fst lids) (lms ! snd lids)
          / max (distance (lms ! fst pair) (lms ! snd pair)) 0.00001)"
  using assms by (simp add: eye_aspect_ratio_def landmark_at_in_range raise_bind_Inr)

lemma compute_blink_rate_in_range:
  assumes "386 < length (landmarks frame)"
  shows "compute_blink_rate self frame
    = Inr (blink_update self (eye_ratio_of (landmarks frame)) (timestamp frame))"
  using assms
  by (simp add: compute_blink_rate_def eye_aspect_ratio_in_range raise_bind_Inr eye_ratio_of_def
      LEFT_EYE_LIDS_def LEFT_EYE_HORIZONTAL_def RIGHT_EYE_LIDS_def RIGHT_EYE_HORIZONTAL_def)

text \<open>
  Claim C4.  A frame appends its timestamp to the blink counter exactly when its averaged eye
  ratio is below the threshold and the previous frame's was not; otherwise the counter is left
  as it was.  On the ratios 0.30, 0.20, 0.20, 0.20, 0.30 with threshold 0.23, a fresh extractor
  records one event, with the timestamp of the second frame.
\<close>

theorem blink_edge_detection:
  "blink_events (snd (blink_update self eye_ratio ts))
     = (if eye_ratio < blink_threshold self \<and> \<not> previous_blink_state self
        then TemporalMetric_add (blink_events self) ts else blink_events self)
   \<and> previous_blink_state (snd (blink_update self eye_ratio ts)) = (eye_ratio < blink_threshold self)
   \<and> (386 < length (landmarks frame) \<longrightarrow>
        compute_blink_rate self frame
          = Inr (blink_update self (eye_ratio_of (landmarks frame)) (timestamp frame)))
   \<and> (0 \<le> k \<and> 0 \<le> w \<longrightarrow>
        (\<exists>fx. FeatureExtractor_init k 0.23 w = Inr fx
           \<and> timestamps (blink_events (blink_run fx
                [(0.30, t1), (0.20, t2), (0.20, t3), (0.20, t4), (0.30, t5)])) = [t2]
           \<and> count (blink_events (blink_run fx
                [(0.30, t1), (0.20, t2), (0.20, t3), (0.20, t4), (0.30, t5)])) = 1))"
proof (intro conjI impI)
  show "blink_events (snd (blink_update self eye_ratio ts))
     = (if eye_ratio < blink_threshold self \<and> \<not> previous_blink_state self
        then TemporalMetric_add (blink_events self) ts else blink_events self)"
    by (simp add: blink_update_def Let_def)
  show "previous_blink_state (snd (blink_update self eye_ratio ts)) = (eye_ratio < blink_threshold self)"
    by (simp add: blink_update_def Let_def)
next
  assume "386 < length (landmarks frame)"
  then show "compute_blink_rate self frame
      = Inr (blink_update self (eye_ratio_of (landmarks frame)) (timestamp frame))"
    by (rule compute_blink_rate_in_range)
next
  assume kw: "0 \<le> k \<and> 0 \<le> w"
  then show "\<exists>fx. FeatureExtractor_init k 0.23 w = Inr fx
           \<and> timestamps (blink_events (blink_run fx
                [(0.30, t1), (0.20, t2), (0.20, t3), (0.20, t4), (0.30, t5)])) = [t2]
           \<and> count (blink_events (blink_run fx
                [(0.30, t1), (0.20, t2), (0.20, t3), (0.20, t4), (0.30, t5)])) = 1"
    by (simp add: FeatureExtractor_init_def blink_run_def blink_update_def Let_def
        TemporalMetric_add_def TemporalMetric_init_def count_def)
qed

theorem blink_edge_detection_witness:
  "386 < length (landmarks \<lparr>landmarks = replicate 468 (0.5, 0.5, 0), timestamp = 2\<rparr>)
   \<and> (0::int) \<le> 5 \<and> (0::real) \<le> 60
   \<and> (\<exists>fx. FeatureExtractor_init 5 0.23 60 = Inr fx
        \<and> compute_blink_rate fx \<lparr>landmarks = replicate 468 (0.5, 0.5, 0), timestamp = 2\<rparr>
            = Inr (blink_update fx 0 2)
        \<and> timestamps (blink_events (blink_run fx
             [(0.30, 0), (0.20, 1), (0.20, 2), (0.20, 3), (0.30, 4)])) = [1])"
proof -
  obtain fx where fx: "FeatureExtractor_init 5 0.23 60 = Inr fx"
    by (simp add: FeatureExtractor_init_def)
  have e: "eye_ratio_of (replicate 468 (0.5, 0.5, 0)) = 0"
    by (simp add: eye_ratio_of_def distance_def)
  show ?thesis
    using fx e
      blink_edge_detection [of fx _ _ "\<lparr>landmarks = replicate 468 (0.5, 0.5, 0), timestamp = 2\<rparr>"
        5 60 0 1 2 3 4]
    by simp
qed

text \<open>
  Claim C7.  With no previous nose height stored, \<open>_compute_head_nod\<close> returns 0.0, stores the
  nose height of the frame, and changes nothing else: the rolling windows are as before.
\<close>

theorem head_nod_first_frame:
  "previous_nose_height self = None \<Longrightarrow> CHIN < length (landmarks frame) \<Longrightarrow>
   compute_head_nod self frame
     = Inr (Some 0, self\<lparr>previous_nose_height := Some (coord_y (landmarks frame ! NOSE_TIP))\<rparr>)
   \<and> metrics_history (self\<lparr>previous_nose_height := Some (coord_y (landmarks frame ! NOSE_TIP))\<rparr>)
     = metrics_history self"
  by (simp add: compute_head_nod_def landmark_at_in_range raise_bind_Inr NOSE_TIP_def CHIN_def Let_def)

text \<open>
  Claim C10.  The divisor of the blink rate is \<open>max(window_seconds / 60, 0.001)\<close>, which is at
  least 0.001 whatever the window, so the division is never by zero: the rate lies between 0 and
  1000 times the count, and equals 1000 times the count when the window is 0 seconds.
\<close>

theorem blink_rate_no_zero_division:
  "386 < length (landmarks frame) \<Longrightarrow>
   \<exists>rate self'. compute_blink_rate self frame = Inr (rate, self')
     \<and> window_seconds (blink_events self') = window_seconds (blink_events self)
     \<and> 0.001 \<le> max (window_seconds (blink_events self) / 60) 0.001
     \<and> rate = real (count (blink_events self')) / max (window_seconds (blink_events self) / 60) 0.001
     \<and> 0 \<le> rate \<and> rate \<le> 1000 * real (count (blink_events self'))
     \<and> (window_seconds (blink_events self) = 0 \<longrightarrow> rate = 1000 * real (count (blink_events self')))"
proof -
  assume len: "386 < length (landmarks frame)"
  define r where "r = eye_ratio_of (landmarks frame)"
  define ts where "ts = timestamp frame"
  define m where "m = max (window_seconds (blink_events self) / 60) 0.001"
  have m: "0.001 \<le> m" by (simp add: m_def)
  obtain rate self' where u: "blink_update self r ts = (rate, self')" by (cases "blink_update self r ts")
  have w: "window_seconds (blink_events self') = window_seconds (blink_events self)"
    using u by (auto simp add: blink_update_def Let_def TemporalMetric_add_def)
  have rate: "rate = real (count (blink_events self')) / m"
    using u by (auto simp add: blink_update_def Let_def TemporalMetric_add_def m_def)
  have nonneg: "0 \<le> rate" using m by (simp add: rate)
  have "real (count (blink_events self')) / m \<le> real (count (blink_events self')) / 0.001"
    using m by (intro divide_left_mono) simp_all
  then have upper: "rate \<le> 1000 * real (count (blink_events self'))" by (simp add: rate)
  have zero: "window_seconds (blink_events self) = 0 \<longrightarrow> rate = 1000 * real (count (blink_events self'))"
    by (simp add: rate m_def)
  have "compute_blink_rate self frame = Inr (rate, self')"
    using compute_blink_rate_in_range [OF len] u by (simp add: r_def ts_def)
  then show ?thesis using w m rate nonneg upper zero unfolding m_def by blast
qed

theorem head_nod_first_frame_witness:
  "\<exists>fx. FeatureExtractor_init 5 0.23 60 = Inr fx
     \<and> previous_nose_height fx = None
     \<and> CHIN < length (landmarks \<lparr>landmarks = replicate 468 (0.5, 0.25, 0), timestamp = 0\<rparr>)
     \<and> compute_head_nod fx \<lparr>landmarks = replicate 468 (0.5, 0.25, 0), timestamp = 0\<rparr>
         = Inr (Some 0, fx\<lparr>previous_nose_height := Some 0.25\<rparr>)"
proof -
  obtain fx where fx: "FeatureExtractor_init 5 0.23 60 = Inr fx"
    by (simp add: FeatureExtractor_init_def)
  have p: "previous_nose_height fx = None"
    using fx by (auto simp add: FeatureExtractor_init_def)
  have l: "CHIN < length (landmarks \<lparr>landmarks = replicate 468 (0.5, 0.25, 0), timestamp = 0\<rparr>)"
    by (simp add: CHIN_def)
  show ?thesis
    using fx p l head_nod_first_frame [OF p l]
    by (simp add: NOSE_TIP_def coord_y_def)
qed

theorem blink_rate_no_zero_division_witness:
  "\<exists>fx rate self'. FeatureExtractor_init 5 0.23 0 = Inr fx
     \<and> 386 < length (landmarks \<lparr>landmarks = replicate 468 (0.5, 0.5, 0), timestamp = 7\<rparr>)
     \<and> compute_blink_rate fx \<lparr>landmarks = replicate 468 (0.5, 0.5, 0), timestamp = 7\<rparr>
         = Inr (rate, self')
     \<and> window_seconds (blink_events fx) = 0
     \<and> rate = 1000 * real (count (blink_events self'))"
proof -
  obtain fx where fx: "FeatureExtractor_init 5 0.23 0 = Inr fx"
    by (simp add: FeatureExtractor_init_def)
  have w: "window_seconds (blink_events fx) = 0"
    using fx by (auto simp add: FeatureExtractor_init_def TemporalMetric_init_def)
  have l: "386 < length (landmarks \<lparr>landmarks = replicate 468 (0.5, 0.5, 0), timestamp = 7\<rparr>)"
    by simp
  show ?thesis
    using fx w l blink_rate_no_zero_division [OF l, of fx] by auto
qed

section \<open>The rolling windows of a reachable extractor\<close>

lemma np_clip_unit: "0 \<le> np_clip x 0 1 \<and> np_clip x 0 1 \<le> 1"
  by (simp add: np_clip_def)

subsection \<open>Deques and means\<close>

lemma deque_append_maxlen: "maxlen (deque_append d v) = maxlen d"
  by (simp add: deque_append_def Let_def)

lemma deque_append_subset: "set (elems (deque_append d v)) \<subseteq> insert v (set (elems d))"
proof (cases "elems d")
  case Nil
  then show ?thesis by (simp add: deque_append_def Let_def)
next
  case (Cons x xs)
  then show ?thesis by (auto simp add: deque_append_def Let_def)
qed

lemma deque_append_nonempty: "0 < maxlen d \<Longrightarrow> elems (deque_append d v) \<noteq> []"
proof (cases "elems d")
  case Nil
  assume "0 < maxlen d"
  with Nil show ?thesis by (simp add: deque_append_def Let_def)
next
  case (Cons x xs)
  then show ?thesis by (simp add: deque_append_def Let_def)
qed

lemma sum_list_lower: "\<forall>x\<in>set xs. c \<le> x \<Longrightarrow> c * real (length xs) \<le> sum_list xs"
  by (induction xs) (simp_all add: algebra_simps)

lemma sum_list_upper: "\<forall>x\<in>set xs. x \<le> c \<Longrightarrow> sum_list xs \<le> c * real (length xs)"
  by (induction xs) (simp_all add: algebra_simps)

lemma np_mean_lower:
  "xs \<noteq> [] \<Longrightarrow> \<forall>x\<in>set xs. c \<le> x \<Longrightarrow> \<exists>m. np_mean xs = Some m \<and> c \<le> m"
  using sum_list_lower [of xs c] by (simp add: np_mean_def pos_le_divide_eq)

lemma np_mean_upper:
  "xs \<noteq> [] \<Longrightarrow> \<forall>x\<in>set xs. x \<le> c \<Longrightarrow> \<exists>m. np_mean xs = Some m \<and> m \<le> c"
  using sum_list_upper [of xs c] by (simp add: np_mean_def pos_divide_le_eq)

subsection \<open>Pushing into a window\<close>

lemma push_and_mean_present:
  "metrics_history self key = Some d \<Longrightarrow>
   push_and_mean self key v
     = Inr (np_mean (elems (deque_append d v)),
            self\<lparr>metrics_history := (metrics_history self)(key \<mapsto> deque_append d v)\<rparr>)"
  by (simp add: push_and_mean_def dict_item_def raise_bind_def Let_def)

lemma push_and_mean_returns:
  "push_and_mean self key v = Inr (r, self') \<Longrightarrow>
   \<exists>d. metrics_history self key = Some d
     \<and> self' = self\<lparr>metrics_history := (metrics_history self)(key \<mapsto> deque_append d v)\<rparr>"
  by (auto simp add: push_and_mean_def dict_item_def raise_bind_def Let_def split: option.splits)

lemma window_nonneg_push:
  assumes "window_nonneg self k" "0 \<le> v"
    and "push_and_mean self key v = Inr (r, self')"
  shows "window_nonneg self' k"
proof -
  obtain d where d: "metrics_history self key = Some d"
    and s': "self' = self\<lparr>metrics_history := (metrics_history self)(key \<mapsto> deque_append d v)\<rparr>"
    using push_and_mean_returns [OF assms(3)] by blast
  show ?thesis
  proof (cases "k = key")
    case True
    have "\<forall>x\<in>set (elems (deque_append d v)). 0 \<le> x"
      using assms(1,2) d True deque_append_subset [of d v] by (auto simp add: window_nonneg_def)
    then show ?thesis
      using assms(1) d True by (simp add: window_nonneg_def s' deque_append_maxlen)
  next
    case False
    then show ?thesis using assms(1) by (simp add: window_nonneg_def s')
  qed
qed

lemma lip_bounded_push:
  assumes "lip_bounded self" "key = ''lip_tension'' \<longrightarrow> v \<le> 1"
    and "push_and_mean self key v = Inr (r, self')"
  shows "lip_bounded self'"
proof -
  obtain d where d: "metrics_history self key = Some d"
    and s': "self' = self\<lparr>metrics_history := (metrics_history self)(key \<mapsto> deque_append d v)\<rparr>"
    using push_and_mean_returns [OF assms(3)] by blast
  show ?thesis
  proof (cases "key = ''lip_tension''")
    case True
    have "\<forall>x\<in>set (elems (deque_append d v)). x \<le> 1"
      using assms(1,2) d True deque_append_subset [of d v] by (auto simp add: lip_bounded_def)
    then show ?thesis by (simp add: lip_bounded_def s' True)
  next
    case False
    then show ?thesis using assms(1) by (simp add: lip_bounded_def s')
  qed
qed

lemma history_ok_push:
  assumes "history_ok self" "0 \<le> v" "key = ''lip_tension'' \<longrightarrow> v \<le> 1"
    and "push_and_mean self key v = Inr (r, self')"
  shows "history_ok self'"
  using assms window_nonneg_push [OF _ assms(2) assms(4)] lip_bounded_push [OF _ assms(3) assms(4)]
  by (simp add: history_ok_def)

lemma history_ok_other_fields:
  "history_ok (self\<lparr>previous_nose_height := h\<rparr>) = history_ok self"
  "history_ok (self\<lparr>blink_events := e, previous_blink_state := b\<rparr>) = history_ok self"
  by (simp_all add: history_ok_def window_nonneg_def lip_bounded_def)

subsection \<open>What each metric pushes\<close>

lemma raise_bind_returnsE:
  assumes "raise_bind m f = Inr y"
  obtains v where "m = Inr v" and "f v = Inr y"
  using assms by (cases m) (simp_all add: raise_bind_def)

lemma abs_ratio_nonneg: "0 \<le> \<bar>a\<bar> / max b (0.00001 :: real)"
  by simp

lemma compute_eyebrow_raise_returns:
  assumes "compute_eyebrow_raise self lms = Inr (r, self')"
  shows "\<exists>v. 0 \<le> v \<and> push_and_mean self ''eyebrow'' v = Inr (r, self')"
proof -
  from assms obtain a b where
    "push_and_mean self ''eyebrow'' ((\<bar>a\<bar> + \<bar>b\<bar>) * 0.5) = Inr (r, self')"
    unfolding compute_eyebrow_raise_def Let_def by (elim raise_bind_returnsE) blast
  moreover have "0 \<le> (\<bar>a\<bar> + \<bar>b\<bar>) * 0.5" by simp
  ultimately show ?thesis by blast
qed

lemma compute_lip_tension_returns:
  assumes "compute_lip_tension self lms = Inr (r, self')"
  shows "\<exists>v. 0 \<le> v \<and> v \<le> 1 \<and> push_and_mean self ''lip_tension'' v = Inr (r, self')"
proof -
  from assms obtain x where
    "push_and_mean self ''lip_tension'' (np_clip x 0 1) = Inr (r, self')"
    unfolding compute_lip_tension_def Let_def by (elim raise_bind_returnsE) auto
  then show ?thesis using np_clip_unit [of x] by blast
qed

lemma compute_symmetry_returns:
  assumes "compute_symmetry self lms = Inr (r, self')"
  shows "\<exists>v. 0 \<le> v \<and> push_and_mean self ''symmetry'' v = Inr (r, self')"
proof -
  from assms obtain a b where
    "push_and_mean self ''symmetry'' (\<bar>a\<bar> / max b 0.00001) = Inr (r, self')"
    unfolding compute_symmetry_def Let_def by (elim raise_bind_returnsE) blast
  then show ?thesis using abs_ratio_nonneg [of a b] by blast
qed

lemma compute_head_nod_returns:
  assumes "compute_head_nod self frame = Inr (r, self')"
  shows "(\<exists>y. self' = self\<lparr>previous_nose_height := Some y\<rparr>)
   \<or> (\<exists>v y. 0 \<le> v \<and> push_and_mean (self\<lparr>previous_nose_height := Some y\<rparr>) ''nod'' v = Inr (r, self'))"
proof (cases "previous_nose_height self")
  case None
  from assms have "\<exists>y. self' = self\<lparr>previous_nose_height := Some y\<rparr>"
    unfolding compute_head_nod_def Let_def None by (elim raise_bind_returnsE) auto
  then show ?thesis by blast
next
  case (Some previous)
  from assms obtain a b y where
    "push_and_mean (self\<lparr>previous_nose_height := Some y\<rparr>) ''nod'' (\<bar>a\<bar> / max b 0.00001) = Inr (r, self')"
    unfolding compute_head_nod_def Let_def Some by (elim raise_bind_returnsE) auto
  then show ?thesis using abs_ratio_nonneg [of a b] by blast
qed

lemma compute_blink_rate_returns:
  assumes "compute_blink_rate self frame = Inr (b, self')"
  shows "\<exists>e s. self' = self\<lparr>blink_events := e, previous_blink_state := s\<rparr>"
  using assms unfolding compute_blink_rate_def Let_def blink_update_def
  by (elim raise_bind_returnsE) auto

lemma constructed_history_ok:
  assumes "FeatureExtractor_init k thr w = Inr self"
  shows "history_ok self"
proof -
  from assms have k: "\<not> k < 0" by (auto simp add: FeatureExtractor_init_def split: if_splits)
  with assms show ?thesis
    by (auto simp add: FeatureExtractor_init_def history_ok_def window_nonneg_def lip_bounded_def)
qed

lemma reachable_history_ok: "reachable self \<Longrightarrow> history_ok self"
proof (induction rule: reachable.induct)
  case (constructed k thr w self)
  then show ?case by (rule constructed_history_ok)
next
  case (after_eyebrow self lms r self')
  from compute_eyebrow_raise_returns [OF after_eyebrow.hyps(2)] obtain v
    where "0 \<le> v" and "push_and_mean self ''eyebrow'' v = Inr (r, self')" by blast
  then show ?case using after_eyebrow.IH by (intro history_ok_push [of self v "''eyebrow''" r self']) simp_all
next
  case (after_lip self lms r self')
  from compute_lip_tension_returns [OF after_lip.hyps(2)] obtain v
    where "0 \<le> v" and "v \<le> 1" and "push_and_mean self ''lip_tension'' v = Inr (r, self')" by blast
  then show ?case using after_lip.IH by (intro history_ok_push [of self v "''lip_tension''" r self']) simp_all
next
  case (after_nod self frame r self')
  from compute_head_nod_returns [OF after_nod.hyps(2)] show ?case
  proof
    assume "\<exists>y. self' = self\<lparr>previous_nose_height := Some y\<rparr>"
    then show ?thesis using after_nod.IH by (auto simp add: history_ok_other_fields)
  next
    assume "\<exists>v y. 0 \<le> v \<and> push_and_mean (self\<lparr>previous_nose_height := Some y\<rparr>) ''nod'' v = Inr (r, self')"
    then obtain v y where v: "0 \<le> v"
      and p: "push_and_mean (self\<lparr>previous_nose_height := Some y\<rparr>) ''nod'' v = Inr (r, self')" by blast
    have "history_ok (self\<lparr>previous_nose_height := Some y\<rparr>)"
      using after_nod.IH by (simp add: history_ok_other_fields)
    then show ?thesis using v p by (intro history_ok_push [of _ v "''nod''" r self']) simp_all
  qed
next
  case (after_symmetry self lms r self')
  from compute_symmetry_returns [OF after_symmetry.hyps(2)] obtain v
    where "0 \<le> v" and "push_and_mean self ''symmetry'' v = Inr (r, self')" by blast
  then show ?case using after_symmetry.IH by (intro history_ok_push [of self v "''symmetry''" r self']) simp_all
next
  case (after_blink self frame b self')
  from compute_blink_rate_returns [OF after_blink.hyps(2)] show ?case
    using after_blink.IH by (auto simp add: history_ok_other_fields)
qed

lemma floor_bound: "0 \<le> a \<Longrightarrow> a / max b 0.00001 \<le> 100000 * (a :: real)"
proof -
  assume a: "0 \<le> a"
  have "a / max b 0.00001 \<le> a / 0.00001"
    using a by (intro divide_left_mono) simp_all
  then show ?thesis by simp
qed

lemma floor_reached: "(0.00001 :: real) \<le> max b 0.00001"
  by simp

lemma symmetry_le_two:
  assumes "0 \<le> l" "0 \<le> r"
  shows "\<bar>l - r\<bar> / max ((l + r) * 0.5) 0.00001 \<le> (2 :: real)"
proof -
  define m where "m = max ((l + r) * 0.5) (0.00001 :: real)"
  have m: "0 < m" by (simp add: m_def)
  have "(l + r) * 0.5 \<le> m" unfolding m_def by (rule max.cobounded1)
  then have "l + r \<le> 2 * m" by simp
  moreover have "\<bar>l - r\<bar> \<le> l + r" using assms by simp
  ultimately have "\<bar>l - r\<bar> \<le> 2 * m" by linarith
  then have "\<bar>l - r\<bar> / m \<le> 2" using m by (simp add: pos_divide_le_eq)
  then show ?thesis unfolding m_def .
qed

lemma smoothed_by_push:
  assumes "window_nonneg self key" "0 < smoothing_window self" "0 \<le> x"
  shows "\<exists>v. smoothed_by self key x (push_and_mean self key x) v \<and> 0 \<le> v"
proof -
  from assms(1) obtain d where d: "metrics_history self key = Some d"
    and len: "maxlen d = nat (smoothing_window self)"
    and pos: "\<forall>y\<in>set (elems d). 0 \<le> y"
    unfolding window_nonneg_def by blast
  have "0 < maxlen d" using len assms(2) by simp
  then have ne: "elems (deque_append d x) \<noteq> []" by (rule deque_append_nonempty)
  have "\<forall>y\<in>set (elems (deque_append d x)). 0 \<le> y"
    using pos assms(3) deque_append_subset [of d x] by auto
  from np_mean_lower [OF ne this] obtain v
    where v: "np_mean (elems (deque_append d x)) = Some v" and v0: "0 \<le> v" by blast
  have "v = sum_list (elems (deque_append d x)) / real (length (elems (deque_append d x)))"
    using v ne by (simp add: np_mean_def)
  then have "smoothed_by self key x (push_and_mean self key x) v"
    unfolding smoothed_by_def using d ne v by (simp add: push_and_mean_present [OF d])
  then show ?thesis using v0 by blast
qed

lemma smoothed_by_at_most_one:
  assumes "smoothed_by self ''lip_tension'' x res v" "lip_bounded self" "x \<le> 1"
  shows "v \<le> 1"
proof -
  from assms(1) obtain d where d: "metrics_history self ''lip_tension'' = Some d"
    and ne: "elems (deque_append d x) \<noteq> []"
    and v: "v = sum_list (elems (deque_append d x)) / real (length (elems (deque_append d x)))"
    unfolding smoothed_by_def by blast
  have "\<forall>y\<in>set (elems d). y \<le> 1" using assms(2) d unfolding lip_bounded_def by auto
  then have "\<forall>y\<in>set (elems (deque_append d x)). y \<le> 1"
    using assms(3) deque_append_subset [of d x] by auto
  from np_mean_upper [OF ne this] show ?thesis using v ne by (simp add: np_mean_def)
qed

lemma gather_three:
  "a < length lms \<Longrightarrow> b < length lms \<Longrightarrow> c < length lms \<Longrightarrow>
   gather lms [a, b, c] = Inr [lms ! a, lms ! b, lms ! c]"
  by (simp add: landmark_at_in_range raise_bind_Inr)

lemma average_three_y:
  assumes "a < length lms" "b < length lms" "c < length lms"
  shows "\<exists>p. average_points [a, b, c] lms = Inr p
     \<and> coord_y p = (coord_y (lms ! a) + coord_y (lms ! b) + coord_y (lms ! c)) / 3"
proof -
  have g: "gather lms [a, b, c] = Inr [lms ! a, lms ! b, lms ! c]"
    using assms by (rule gather_three)
  show ?thesis
    unfolding average_points_def g raise_bind_Inr Let_def by (simp add: coord_y_def)
qed

lemma anchor_y:
  "coord_y (point_scale (point_add p q) c) = (coord_y p + coord_y q) * c"
  by (cases p, cases q) (simp add: point_scale_def point_add_def coord_y_def)

lemma compute_eyebrow_raise_pushes:
  assumes "386 < length lms"
  shows "compute_eyebrow_raise self lms
    = push_and_mean self ''eyebrow''
        ((\<bar>(coord_y (lms ! 55) + coord_y (lms ! 107) + coord_y (lms ! 46)) / 3
              - (coord_y (lms ! 159) + coord_y (lms ! 386)) * 0.5\<bar>
          + \<bar>(coord_y (lms ! 285) + coord_y (lms ! 336) + coord_y (lms ! 276)) / 3
              - (coord_y (lms ! 159) + coord_y (lms ! 386)) * 0.5\<bar>) * 0.5)"
proof -
  have "55 < length lms" "107 < length lms" "46 < length lms" using assms by simp_all
  from average_three_y [OF this, of] obtain lb
    where lb: "average_points LEFT_EYEBROW lms = Inr lb"
      and lby: "coord_y lb = (coord_y (lms ! 55) + coord_y (lms ! 107) + coord_y (lms ! 46)) / 3"
    unfolding LEFT_EYEBROW_def by blast
  have "285 < length lms" "336 < length lms" "276 < length lms" using assms by simp_all
  from average_three_y [OF this] obtain rb
    where rb: "average_points RIGHT_EYEBROW lms = Inr rb"
      and rby: "coord_y rb = (coord_y (lms ! 285) + coord_y (lms ! 336) + coord_y (lms ! 276)) / 3"
    unfolding RIGHT_EYEBROW_def by blast
  show ?thesis
    using assms
    by (simp add: compute_eyebrow_raise_def lb rb raise_bind_Inr landmark_at_in_range
        LEFT_EYE_LIDS_def RIGHT_EYE_LIDS_def Let_def anchor_y lby rby)
qed

lemma compute_symmetry_pushes:
  assumes "RIGHT_CHEEK < length lms"
  shows "compute_symmetry self lms
    = push_and_mean self ''symmetry''
        (\<bar>distance (lms ! 234) (lms ! 1) - distance (lms ! 454) (lms ! 1)\<bar>
          / max ((distance (lms ! 234) (lms ! 1) + distance (lms ! 454) (lms ! 1)) * 0.5) 0.00001)"
  using assms
  by (simp add: compute_symmetry_def raise_bind_Inr landmark_at_in_range Let_def
      LEFT_CHEEK_def RIGHT_CHEEK_def NOSE_TIP_def)

lemma compute_head_nod_pushes:
  assumes "CHIN < length (landmarks frame)" "previous_nose_height self = Some previous"
  shows "compute_head_nod self frame
    = push_and_mean (self\<lparr>previous_nose_height := Some (coord_y (landmarks frame ! 1))\<rparr>) ''nod''
        (\<bar>coord_y (landmarks frame ! 1) - previous\<bar>
          / max \<bar>coord_y (landmarks frame ! 152) - coord_y (landmarks frame ! 1)\<bar> 0.00001)"
  using assms
  by (simp add: compute_head_nod_def raise_bind_Inr landmark_at_in_range Let_def NOSE_TIP_def CHIN_def)

lemma compute_head_nod_first:
  assumes "CHIN < length (landmarks frame)" "previous_nose_height self = None"
  shows "compute_head_nod self frame
    = Inr (Some 0, self\<lparr>previous_nose_height := Some (coord_y (landmarks frame ! 1))\<rparr>)"
  using assms
  by (simp add: compute_head_nod_def raise_bind_Inr landmark_at_in_range Let_def NOSE_TIP_def CHIN_def)

lemma compute_lip_tension_in_range:
  assumes "RIGHT_LIP_CORNER < length lms"
  shows "compute_lip_tension self lms
    = push_and_mean self ''lip_tension''
        (np_clip ((distance (lms ! 61) (lms ! 291) / max (distance (lms ! 13) (lms ! 14)) 0.00001 - 5) / 55) 0 1)"
  using assms
  by (simp add: compute_lip_tension_def raise_bind_Inr landmark_at_in_range Let_def
      LEFT_LIP_CORNER_def RIGHT_LIP_CORNER_def TOP_LIP_def BOTTOM_LIP_def)

text \<open>
  Claim C6, as amended.  The value pushed into the lip-tension window is
  \<open>clip((mouth_width / max(mouth_height, 1e-5) - 5) / 55, 0, 1)\<close>, with the constants 5 and 55.
  When the smoothing window has room for at least one value, the value returned, the mean of
  that window, lies between 0 and 1: in every state an extractor can reach, for every landmark
  array that has the four lip rows.
\<close>

theorem lip_tension_clipped:
  assumes "reachable self" and "0 < smoothing_window self" and "RIGHT_LIP_CORNER < length lms"
  shows "\<exists>d v.
     metrics_history self ''lip_tension'' = Some d
     \<and> compute_lip_tension self lms
        = Inr (Some v, self\<lparr>metrics_history := (metrics_history self)(''lip_tension'' \<mapsto>
            deque_append d (np_clip ((distance (lms ! 61) (lms ! 291)
               / max (distance (lms ! 13) (lms ! 14)) 0.00001 - 5) / 55) 0 1))\<rparr>)
     \<and> np_mean (elems (deque_append d (np_clip ((distance (lms ! 61) (lms ! 291)
               / max (distance (lms ! 13) (lms ! 14)) 0.00001 - 5) / 55) 0 1))) = Some v
     \<and> 0 \<le> v \<and> v \<le> 1"
proof -
  define t where "t = np_clip ((distance (lms ! 61) (lms ! 291)
               / max (distance (lms ! 13) (lms ! 14)) 0.00001 - 5) / 55) 0 1"
  have t: "0 \<le> t" "t \<le> 1" using np_clip_unit unfolding t_def by blast+
  have ok: "history_ok self" using assms(1) by (rule reachable_history_ok)
  then obtain d where d: "metrics_history self ''lip_tension'' = Some d"
    and len: "maxlen d = nat (smoothing_window self)"
    and pos: "\<forall>x\<in>set (elems d). 0 \<le> x"
    unfolding history_ok_def window_nonneg_def by blast
  have le: "\<forall>x\<in>set (elems d). x \<le> 1"
    using ok d unfolding history_ok_def lip_bounded_def by auto
  have "0 < maxlen d" using len assms(2) by simp
  then have ne: "elems (deque_append d t) \<noteq> []" by (rule deque_append_nonempty)
  have lo: "\<forall>x\<in>set (elems (deque_append d t)). 0 \<le> x"
    using pos t(1) deque_append_subset [of d t] by auto
  have hi: "\<forall>x\<in>set (elems (deque_append d t)). x \<le> 1"
    using le t(2) deque_append_subset [of d t] by auto
  from np_mean_lower [OF ne lo] obtain v
    where v: "np_mean (elems (deque_append d t)) = Some v" and v0: "0 \<le> v" by blast
  from np_mean_upper [OF ne hi] v have v1: "v \<le> 1" by auto
  have "compute_lip_tension self lms
      = Inr (Some v, self\<lparr>metrics_history := (metrics_history self)(''lip_tension'' \<mapsto> deque_append d t)\<rparr>)"
    unfolding compute_lip_tension_in_range [OF assms(3)] t_def [symmetric]
    by (simp add: push_and_mean_present [OF d] v)
  then show ?thesis using d v v0 v1 unfolding t_def by blast
qed

theorem lip_tension_clipped_witness:
  "\<exists>fx r1 fx1 d v.
     FeatureExtractor_init 5 0.23 60 = Inr fx
     \<and> compute_lip_tension fx (replicate 468 (0.5, 0.5, 0)) = Inr (r1, fx1)
     \<and> reachable fx1 \<and> 0 < smoothing_window fx1
     \<and> RIGHT_LIP_CORNER < length ((replicate 468 (0.5 :: real, 0.5 :: real, 0 :: real))
          [61 := (0.2, 0.5, 0), 291 := (0.8, 0.5, 0), 14 := (0.5, 0.51, 0)])
     \<and> metrics_history fx1 ''lip_tension'' = Some d
     \<and> (\<exists>s. compute_lip_tension fx1 ((replicate 468 (0.5, 0.5, 0))
          [61 := (0.2, 0.5, 0), 291 := (0.8, 0.5, 0), 14 := (0.5, 0.51, 0)]) = Inr (Some v, s))
     \<and> 0 \<le> v \<and> v \<le> 1"
proof -
  let ?A = "replicate 468 (0.5 :: real, 0.5 :: real, 0 :: real)"
  let ?B = "?A[61 := (0.2, 0.5, 0), 291 := (0.8, 0.5, 0), 14 := (0.5, 0.51, 0)]"
  obtain fx where fx: "FeatureExtractor_init 5 0.23 60 = Inr fx"
    by (simp add: FeatureExtractor_init_def)
  have r: "reachable fx" using fx by (rule reachable.constructed)
  have k: "0 < smoothing_window fx" using fx by (auto simp add: FeatureExtractor_init_def)
  have la: "RIGHT_LIP_CORNER < length ?A" by (simp add: RIGHT_LIP_CORNER_def)
  have lb: "RIGHT_LIP_CORNER < length ?B" by (simp add: RIGHT_LIP_CORNER_def)
  from lip_tension_clipped [OF r k la] obtain r1 fx1
    where c1: "compute_lip_tension fx ?A = Inr (r1, fx1)"
      and k1: "smoothing_window fx1 = smoothing_window fx"
    by fastforce
  have r1: "reachable fx1" using r c1 by (rule reachable.after_lip)
  have k1': "0 < smoothing_window fx1" using k k1 by simp
  from lip_tension_clipped [OF r1 k1' lb] obtain d v s
    where "metrics_history fx1 ''lip_tension'' = Some d"
      and "compute_lip_tension fx1 ?B = Inr (Some v, s)" and "0 \<le> v" and "v \<le> 1"
    by blast
  with fx c1 r1 k1' lb show ?thesis by blast
qed

lemma zero_window_constructed:
  "FeatureExtractor_init 0 0.23 60 = Inr zero_window_extractor"
  by (simp add: FeatureExtractor_init_def zero_window_extractor_def)

lemma zero_window_push:
  assumes "key \<in> {''eyebrow'', ''lip_tension'', ''nod'', ''symmetry''}"
  shows "push_and_mean zero_window_extractor key x = Inr (None, zero_window_extractor)"
proof -
  have d: "metrics_history zero_window_extractor key = Some \<lparr>maxlen = 0, elems = []\<rparr>"
    using assms by (auto simp add: zero_window_extractor_def)
  have a: "deque_append \<lparr>maxlen = 0, elems = []\<rparr> x = \<lparr>maxlen = 0, elems = []\<rparr>"
    by (simp add: deque_append_def Let_def)
  have "(metrics_history zero_window_extractor)(key \<mapsto> \<lparr>maxlen = 0, elems = []\<rparr>)
      = metrics_history zero_window_extractor"
    using d by (rule map_upd_triv)
  then show ?thesis
    by (simp add: push_and_mean_present [OF d] a np_mean_def)
qed

text \<open>
  Claim C6 as stated fails for \<open>FeatureExtractor(smoothing_window=0)\<close>: the constructor accepts
  the length 0, the window stays empty, and the value returned is \<open>nan\<close>, which is not in the
  interval.
\<close>

theorem lip_tension_empty_window_counterexample:
  "FeatureExtractor_init 0 0.23 60 = Inr zero_window_extractor
   \<and> compute_lip_tension zero_window_extractor (replicate 468 (0.5, 0.5, 0))
       = Inr (None, zero_window_extractor)"
proof
  show "FeatureExtractor_init 0 0.23 60 = Inr zero_window_extractor"
    by (rule zero_window_constructed)
  have "RIGHT_LIP_CORNER < length (replicate 468 (0.5 :: real, 0.5 :: real, 0 :: real))"
    by (simp add: RIGHT_LIP_CORNER_def)
  then show "compute_lip_tension zero_window_extractor (replicate 468 (0.5, 0.5, 0))
       = Inr (None, zero_window_extractor)"
    by (simp only: compute_lip_tension_in_range) (simp add: zero_window_push)
qed

text \<open>
  Claim C8, as amended.  When the smoothing window has room for at least one value, every metric
  returns a number that is not negative, whatever the geometry of the landmarks, coinciding points
  included.  Every divisor is at least \<open>1e-5\<close>, so no division is by zero: each eye aspect
  ratio and the head-nod value are at most 100000 times their numerators, the symmetry value is
  at most 2, the lip tension is at most 1, and a smoothed metric returns the mean of a window
  that is not empty.  This holds in every state an extractor can reach, for every landmark array
  that has all the rows the metrics read.
\<close>

theorem geometric_metrics_bounded:
  assumes "reachable self" and "0 < smoothing_window self"
    and "RIGHT_CHEEK < length (landmarks frame)"
  shows
   "(\<exists>r. eye_aspect_ratio (landmarks frame) LEFT_EYE_LIDS LEFT_EYE_HORIZONTAL = Inr r
       \<and> r = distance (landmarks frame ! 159) (landmarks frame ! 145)
              / max (distance (landmarks frame ! 33) (landmarks frame ! 133)) 0.00001
       \<and> 0.00001 \<le> max (distance (landmarks frame ! 33) (landmarks frame ! 133)) 0.00001
       \<and> 0 \<le> r \<and> r \<le> 100000 * distance (landmarks frame ! 159) (landmarks frame ! 145))
    \<and> (\<exists>r. eye_aspect_ratio (landmarks frame) RIGHT_EYE_LIDS RIGHT_EYE_HORIZONTAL = Inr r
       \<and> r = distance (landmarks frame ! 386) (landmarks frame ! 374)
              / max (distance (landmarks frame ! 362) (landmarks frame ! 263)) 0.00001
       \<and> 0.00001 \<le> max (distance (landmarks frame ! 362) (landmarks frame ! 263)) 0.00001
       \<and> 0 \<le> r \<and> r \<le> 100000 * distance (landmarks frame ! 386) (landmarks frame ! 374))
    \<and> (\<exists>x v. smoothed_by self ''eyebrow'' x (compute_eyebrow_raise self (landmarks frame)) v
       \<and> x = (\<bar>(coord_y (landmarks frame ! 55) + coord_y (landmarks frame ! 107)
                   + coord_y (landmarks frame ! 46)) / 3
                 - (coord_y (landmarks frame ! 159) + coord_y (landmarks frame ! 386)) * 0.5\<bar>
              + \<bar>(coord_y (landmarks frame ! 285) + coord_y (landmarks frame ! 336)
                   + coord_y (landmarks frame ! 276)) / 3
                 - (coord_y (landmarks frame ! 159) + coord_y (landmarks frame ! 386)) * 0.5\<bar>) * 0.5
       \<and> 0 \<le> x \<and> 0 \<le> v)
    \<and> (\<exists>x v. smoothed_by self ''lip_tension'' x (compute_lip_tension self (landmarks frame)) v
       \<and> x = np_clip ((distance (landmarks frame ! 61) (landmarks frame ! 291)
                 / max (distance (landmarks frame ! 13) (landmarks frame ! 14)) 0.00001 - 5) / 55) 0 1
       \<and> 0.00001 \<le> max (distance (landmarks frame ! 13) (landmarks frame ! 14)) 0.00001
       \<and> 0 \<le> x \<and> x \<le> 1 \<and> 0 \<le> v \<and> v \<le> 1)
    \<and> ((previous_nose_height self = None
         \<and> compute_head_nod self frame
             = Inr (Some 0, self\<lparr>previous_nose_height := Some (coord_y (landmarks frame ! 1))\<rparr>))
       \<or> (\<exists>previous x v. previous_nose_height self = Some previous
         \<and> smoothed_by (self\<lparr>previous_nose_height := Some (coord_y (landmarks frame ! 1))\<rparr>) ''nod'' x
             (compute_head_nod self frame) v
         \<and> x = \<bar>coord_y (landmarks frame ! 1) - previous\<bar>
                / max \<bar>coord_y (landmarks frame ! 152) - coord_y (landmarks frame ! 1)\<bar> 0.00001
         \<and> 0.00001 \<le> max \<bar>coord_y (landmarks frame ! 152) - coord_y (landmarks frame ! 1)\<bar> 0.00001
         \<and> 0 \<le> x \<and> x \<le> 100000 * \<bar>coord_y (landmarks frame ! 1) - previous\<bar> \<and> 0 \<le> v))
    \<and> (\<exists>x v. smoothed_by self ''symmetry'' x (compute_symmetry self (landmarks frame)) v
       \<and> x = \<bar>distance (landmarks frame ! 234) (landmarks frame ! 1)
                 - distance (landmarks frame ! 454) (landmarks frame ! 1)\<bar>
              / max ((distance (landmarks frame ! 234) (landmarks frame ! 1)
                       + distance (landmarks frame ! 454) (landmarks frame ! 1)) * 0.5) 0.00001
       \<and> 0.00001 \<le> max ((distance (landmarks frame ! 234) (landmarks frame ! 1)
                       + distance (landmarks frame ! 454) (landmarks frame ! 1)) * 0.5) 0.00001
       \<and> 0 \<le> x \<and> x \<le> 2 \<and> 0 \<le> v)"
proof (intro conjI)
  let ?lms = "landmarks frame"
  have len: "454 < length ?lms" using assms(3) by (simp add: RIGHT_CHEEK_def)
  have ok: "history_ok self" using assms(1) by (rule reachable_history_ok)
  show "\<exists>r. eye_aspect_ratio ?lms LEFT_EYE_LIDS LEFT_EYE_HORIZONTAL = Inr r
       \<and> r = distance (?lms ! 159) (?lms ! 145) / max (distance (?lms ! 33) (?lms ! 133)) 0.00001
       \<and> 0.00001 \<le> max (distance (?lms ! 33) (?lms ! 133)) 0.00001
       \<and> 0 \<le> r \<and> r \<le> 100000 * distance (?lms ! 159) (?lms ! 145)"
  proof (intro exI conjI)
    show "eye_aspect_ratio ?lms LEFT_EYE_LIDS LEFT_EYE_HORIZONTAL
        = Inr (distance (?lms ! 159) (?lms ! 145) / max (distance (?lms ! 33) (?lms ! 133)) 0.00001)"
      using len by (simp add: eye_aspect_ratio_in_range LEFT_EYE_LIDS_def LEFT_EYE_HORIZONTAL_def)
    show "0.00001 \<le> max (distance (?lms ! 33) (?lms ! 133)) 0.00001" by (rule floor_reached)
    show "0 \<le> distance (?lms ! 159) (?lms ! 145) / max (distance (?lms ! 33) (?lms ! 133)) 0.00001"
      using distance_nonneg by simp
    show "distance (?lms ! 159) (?lms ! 145) / max (distance (?lms ! 33) (?lms ! 133)) 0.00001
        \<le> 100000 * distance (?lms ! 159) (?lms ! 145)"
      using distance_nonneg by (rule floor_bound)
  qed (rule refl)
  show "\<exists>r. eye_aspect_ratio ?lms RIGHT_EYE_LIDS RIGHT_EYE_HORIZONTAL = Inr r
       \<and> r = distance (?lms ! 386) (?lms ! 374) / max (distance (?lms ! 362) (?lms ! 263)) 0.00001
       \<and> 0.00001 \<le> max (distance (?lms ! 362) (?lms ! 263)) 0.00001
       \<and> 0 \<le> r \<and> r \<le> 100000 * distance (?lms ! 386) (?lms ! 374)"
  proof (intro exI conjI)
    show "eye_aspect_ratio ?lms RIGHT_EYE_LIDS RIGHT_EYE_HORIZONTAL
        = Inr (distance (?lms ! 386) (?lms ! 374) / max (distance (?lms ! 362) (?lms ! 263)) 0.00001)"
      using len by (simp add: eye_aspect_ratio_in_range RIGHT_EYE_LIDS_def RIGHT_EYE_HORIZONTAL_def)
    show "0.00001 \<le> max (distance (?lms ! 362) (?lms ! 263)) 0.00001" by (rule floor_reached)
    show "0 \<le> distance (?lms ! 386) (?lms ! 374) / max (distance (?lms ! 362) (?lms ! 263)) 0.00001"
      using distance_nonneg by simp
    show "distance (?lms ! 386) (?lms ! 374) / max (distance (?lms ! 362) (?lms ! 263)) 0.00001
        \<le> 100000 * distance (?lms ! 386) (?lms ! 374)"
      using distance_nonneg by (rule floor_bound)
  qed (rule refl)
  show "\<exists>x v. smoothed_by self ''eyebrow'' x (compute_eyebrow_raise self ?lms) v
       \<and> x = (\<bar>(coord_y (?lms ! 55) + coord_y (?lms ! 107) + coord_y (?lms ! 46)) / 3
                 - (coord_y (?lms ! 159) + coord_y (?lms ! 386)) * 0.5\<bar>
              + \<bar>(coord_y (?lms ! 285) + coord_y (?lms ! 336) + coord_y (?lms ! 276)) / 3
                 - (coord_y (?lms ! 159) + coord_y (?lms ! 386)) * 0.5\<bar>) * 0.5
       \<and> 0 \<le> x \<and> 0 \<le> v"
  proof -
    define x where "x = (\<bar>(coord_y (?lms ! 55) + coord_y (?lms ! 107) + coord_y (?lms ! 46)) / 3
                 - (coord_y (?lms ! 159) + coord_y (?lms ! 386)) * 0.5\<bar>
              + \<bar>(coord_y (?lms ! 285) + coord_y (?lms ! 336) + coord_y (?lms ! 276)) / 3
                 - (coord_y (?lms ! 159) + coord_y (?lms ! 386)) * 0.5\<bar>) * 0.5"
    have x0: "0 \<le> x" unfolding x_def by simp
    from len have "386 < length ?lms" by simp
    then have c: "compute_eyebrow_raise self ?lms = push_and_mean self ''eyebrow'' x"
      unfolding x_def by (rule compute_eyebrow_raise_pushes)
    have "window_nonneg self ''eyebrow''" using ok by (simp add: history_ok_def)
    from smoothed_by_push [OF this assms(2) x0] obtain v
      where "smoothed_by self ''eyebrow'' x (compute_eyebrow_raise self ?lms) v" and "0 \<le> v"
      unfolding c by blast
    then show ?thesis using x0 unfolding x_def by blast
  qed
  show "\<exists>x v. smoothed_by self ''lip_tension'' x (compute_lip_tension self ?lms) v
       \<and> x = np_clip ((distance (?lms ! 61) (?lms ! 291)
                 / max (distance (?lms ! 13) (?lms ! 14)) 0.00001 - 5) / 55) 0 1
       \<and> 0.00001 \<le> max (distance (?lms ! 13) (?lms ! 14)) 0.00001
       \<and> 0 \<le> x \<and> x \<le> 1 \<and> 0 \<le> v \<and> v \<le> 1"
  proof -
    define x where "x = np_clip ((distance (?lms ! 61) (?lms ! 291)
                 / max (distance (?lms ! 13) (?lms ! 14)) 0.00001 - 5) / 55) 0 1"
    have x0: "0 \<le> x" and x1: "x \<le> 1" unfolding x_def using np_clip_unit by blast+
    from len have "RIGHT_LIP_CORNER < length ?lms" by (simp add: RIGHT_LIP_CORNER_def)
    then have c: "compute_lip_tension self ?lms = push_and_mean self ''lip_tension'' x"
      unfolding x_def by (rule compute_lip_tension_in_range)
    have "window_nonneg self ''lip_tension''" using ok by (simp add: history_ok_def)
    from smoothed_by_push [OF this assms(2) x0] obtain v
      where s: "smoothed_by self ''lip_tension'' x (compute_lip_tension self ?lms) v" and v0: "0 \<le> v"
      unfolding c by blast
    have "lip_bounded self" using ok by (simp add: history_ok_def)
    from smoothed_by_at_most_one [OF s this x1] have "v \<le> 1" .
    then show ?thesis using s x0 x1 v0 floor_reached unfolding x_def by blast
  qed
  show "(previous_nose_height self = None
         \<and> compute_head_nod self frame
             = Inr (Some 0, self\<lparr>previous_nose_height := Some (coord_y (?lms ! 1))\<rparr>))
       \<or> (\<exists>previous x v. previous_nose_height self = Some previous
         \<and> smoothed_by (self\<lparr>previous_nose_height := Some (coord_y (?lms ! 1))\<rparr>) ''nod'' x
             (compute_head_nod self frame) v
         \<and> x = \<bar>coord_y (?lms ! 1) - previous\<bar>
                / max \<bar>coord_y (?lms ! 152) - coord_y (?lms ! 1)\<bar> 0.00001
         \<and> 0.00001 \<le> max \<bar>coord_y (?lms ! 152) - coord_y (?lms ! 1)\<bar> 0.00001
         \<and> 0 \<le> x \<and> x \<le> 100000 * \<bar>coord_y (?lms ! 1) - previous\<bar> \<and> 0 \<le> v)"
  proof (cases "previous_nose_height self")
    case None
    from len have "CHIN < length ?lms" by (simp add: CHIN_def)
    from compute_head_nod_first [OF this None] None show ?thesis by blast
  next
    case (Some previous)
    define x where "x = \<bar>coord_y (?lms ! 1) - previous\<bar>
                / max \<bar>coord_y (?lms ! 152) - coord_y (?lms ! 1)\<bar> 0.00001"
    define self1 where "self1 = self\<lparr>previous_nose_height := Some (coord_y (?lms ! 1))\<rparr>"
    have x0: "0 \<le> x" unfolding x_def by (rule abs_ratio_nonneg)
    have xb: "x \<le> 100000 * \<bar>coord_y (?lms ! 1) - previous\<bar>"
      unfolding x_def by (rule floor_bound) simp
    from len have "CHIN < length ?lms" by (simp add: CHIN_def)
    then have c: "compute_head_nod self frame = push_and_mean self1 ''nod'' x"
      unfolding x_def self1_def using Some by (rule compute_head_nod_pushes)
    have w: "window_nonneg self1 ''nod''"
      using ok by (simp add: history_ok_def window_nonneg_def self1_def)
    have k: "0 < smoothing_window self1" using assms(2) by (simp add: self1_def)
    from smoothed_by_push [OF w k x0] obtain v
      where "smoothed_by self1 ''nod'' x (compute_head_nod self frame) v" and "0 \<le> v"
      unfolding c by blast
    then show ?thesis using Some x0 xb floor_reached unfolding x_def self1_def by blast
  qed
  show "\<exists>x v. smoothed_by self ''symmetry'' x (compute_symmetry self ?lms) v
       \<and> x = \<bar>distance (?lms ! 234) (?lms ! 1) - distance (?lms ! 454) (?lms ! 1)\<bar>
              / max ((distance (?lms ! 234) (?lms ! 1) + distance (?lms ! 454) (?lms ! 1)) * 0.5) 0.00001
       \<and> 0.00001 \<le> max ((distance (?lms ! 234) (?lms ! 1)
                       + distance (?lms ! 454) (?lms ! 1)) * 0.5) 0.00001
       \<and> 0 \<le> x \<and> x \<le> 2 \<and> 0 \<le> v"
  proof -
    define x where "x = \<bar>distance (?lms ! 234) (?lms ! 1) - distance (?lms ! 454) (?lms ! 1)\<bar>
              / max ((distance (?lms ! 234) (?lms ! 1) + distance (?lms ! 454) (?lms ! 1)) * 0.5) 0.00001"
    have x0: "0 \<le> x" unfolding x_def by (rule abs_ratio_nonneg)
    have x2: "x \<le> 2" unfolding x_def by (rule symmetry_le_two) (rule distance_nonneg)+
    have c: "compute_symmetry self ?lms = push_and_mean self ''symmetry'' x"
      unfolding x_def using assms(3) by (rule compute_symmetry_pushes)
    have "window_nonneg self ''symmetry''" using ok by (simp add: history_ok_def)
    from smoothed_by_push [OF this assms(2) x0] obtain v
      where "smoothed_by self ''symmetry'' x (compute_symmetry self ?lms) v" and "0 \<le> v"
      unfolding c by blast
    then show ?thesis using x0 x2 floor_reached unfolding x_def by blast
  qed
qed

theorem geometric_metrics_bounded_witness:
  "\<exists>fx. FeatureExtractor_init 5 0.23 60 = Inr fx
     \<and> reachable (fx\<lparr>previous_nose_height := Some 0.5\<rparr>)
     \<and> 0 < smoothing_window (fx\<lparr>previous_nose_height := Some 0.5\<rparr>)
     \<and> RIGHT_CHEEK < length (landmarks
          \<lparr>landmarks = (replicate 468 (0.5, 0.5, 0))
             [1 := (0.5, 0.4, 0), 152 := (0.5, 0.9, 0), 234 := (0.2, 0.4, 0), 454 := (0.9, 0.4, 0)],
           timestamp = 1\<rparr>)
     \<and> (\<exists>x v. smoothed_by (fx\<lparr>previous_nose_height := Some 0.4\<rparr>) ''nod'' x
           (compute_head_nod (fx\<lparr>previous_nose_height := Some 0.5\<rparr>)
              \<lparr>landmarks = (replicate 468 (0.5, 0.5, 0))
                 [1 := (0.5, 0.4, 0), 152 := (0.5, 0.9, 0), 234 := (0.2, 0.4, 0), 454 := (0.9, 0.4, 0)],
               timestamp = 1\<rparr>) v
          \<and> x = 0.2 \<and> 0 \<le> v)
     \<and> (\<exists>x v. smoothed_by (fx\<lparr>previous_nose_height := Some 0.5\<rparr>) ''symmetry'' x
           (compute_symmetry (fx\<lparr>previous_nose_height := Some 0.5\<rparr>)
              ((replicate 468 (0.5, 0.5, 0))
                 [1 := (0.5, 0.4, 0), 152 := (0.5, 0.9, 0), 234 := (0.2, 0.4, 0), 454 := (0.9, 0.4, 0)])) v
          \<and> 0 \<le> x \<and> x \<le> 2 \<and> 0 \<le> v)"
proof -
  let ?A = "\<lparr>landmarks = replicate 468 (0.5 :: real, 0.5 :: real, 0 :: real), timestamp = 0\<rparr>"
  let ?B = "\<lparr>landmarks = (replicate 468 (0.5 :: real, 0.5 :: real, 0 :: real))
             [1 := (0.5, 0.4, 0), 152 := (0.5, 0.9, 0), 234 := (0.2, 0.4, 0), 454 := (0.9, 0.4, 0)],
           timestamp = 1 :: real\<rparr>"
  obtain fx where fx: "FeatureExtractor_init 5 0.23 60 = Inr fx"
    by (simp add: FeatureExtractor_init_def)
  define fx1 where "fx1 = fx\<lparr>previous_nose_height := Some 0.5\<rparr>"
  have r: "reachable fx" using fx by (rule reachable.constructed)
  have n: "previous_nose_height fx = None" using fx by (auto simp add: FeatureExtractor_init_def)
  have "CHIN < length (landmarks ?A)" by (simp add: CHIN_def)
  from compute_head_nod_first [OF this n]
  have "compute_head_nod fx ?A = Inr (Some 0, fx1)" by (simp add: fx1_def coord_y_def)
  with r have r1: "reachable fx1" by (rule reachable.after_nod)
  have k1: "0 < smoothing_window fx1"
    using fx by (auto simp add: FeatureExtractor_init_def fx1_def)
  have l: "RIGHT_CHEEK < length (landmarks ?B)" by (simp add: RIGHT_CHEEK_def)
  have p: "previous_nose_height fx1 = Some 0.5" by (simp add: fx1_def)
  have y1: "coord_y (landmarks ?B ! 1) = 0.4" and y152: "coord_y (landmarks ?B ! 152) = 0.9"
    by (simp_all add: coord_y_def)
  have u: "fx1\<lparr>previous_nose_height := Some 0.4\<rparr> = fx\<lparr>previous_nose_height := Some 0.4\<rparr>"
    by (simp add: fx1_def)
  note g = geometric_metrics_bounded [OF r1 k1 l]
  from g have "(previous_nose_height fx1 = None
         \<and> compute_head_nod fx1 ?B
             = Inr (Some 0, fx1\<lparr>previous_nose_height := Some (coord_y (landmarks ?B ! 1))\<rparr>))
       \<or> (\<exists>previous x v. previous_nose_height fx1 = Some previous
         \<and> smoothed_by (fx1\<lparr>previous_nose_height := Some (coord_y (landmarks ?B ! 1))\<rparr>) ''nod'' x
             (compute_head_nod fx1 ?B) v
         \<and> x = \<bar>coord_y (landmarks ?B ! 1) - previous\<bar>
                / max \<bar>coord_y (landmarks ?B ! 152) - coord_y (landmarks ?B ! 1)\<bar> 0.00001
         \<and> 0.00001 \<le> max \<bar>coord_y (landmarks ?B ! 152) - coord_y (landmarks ?B ! 1)\<bar> 0.00001
         \<and> 0 \<le> x \<and> x \<le> 100000 * \<bar>coord_y (landmarks ?B ! 1) - previous\<bar> \<and> 0 \<le> v)"
    by blast
  moreover have "previous_nose_height fx1 \<noteq> None" by (simp add: p)
  ultimately obtain previous x v where pv: "previous_nose_height fx1 = Some previous"
    and s: "smoothed_by (fx1\<lparr>previous_nose_height := Some (coord_y (landmarks ?B ! 1))\<rparr>) ''nod'' x
             (compute_head_nod fx1 ?B) v"
    and xe: "x = \<bar>coord_y (landmarks ?B ! 1) - previous\<bar>
                / max \<bar>coord_y (landmarks ?B ! 152) - coord_y (landmarks ?B ! 1)\<bar> 0.00001"
    and v0: "0 \<le> v"
    by blast
  have pe: "previous = 0.5" using pv p by simp
  have x02: "x = 0.2" using xe unfolding y1 y152 pe by simp
  have nod: "\<exists>x v. smoothed_by (fx\<lparr>previous_nose_height := Some 0.4\<rparr>) ''nod'' x
             (compute_head_nod fx1 ?B) v \<and> x = 0.2 \<and> 0 \<le> v"
    using s x02 v0 unfolding y1 u by blast
  from g have sym: "\<exists>x v. smoothed_by fx1 ''symmetry'' x (compute_symmetry fx1 (landmarks ?B)) v
          \<and> 0 \<le> x \<and> x \<le> 2 \<and> 0 \<le> v"
    by blast
  show ?thesis
    using fx r1 k1 l nod sym unfolding fx1_def by (intro exI [of _ fx]) simp
qed

text \<open>
  Claim C8 as stated fails for \<open>FeatureExtractor(smoothing_window=0)\<close>: the window of the
  symmetry metric stays empty and the value returned is \<open>nan\<close>.
\<close>

theorem symmetry_empty_window_counterexample:
  "FeatureExtractor_init 0 0.23 60 = Inr zero_window_extractor
   \<and> compute_symmetry zero_window_extractor (replicate 468 (0.5, 0.5, 0))
       = Inr (None, zero_window_extractor)"
proof
  show "FeatureExtractor_init 0 0.23 60 = Inr zero_window_extractor"
    by (rule zero_window_constructed)
  show "compute_symmetry zero_window_extractor (replicate 468 (0.5, 0.5, 0))
       = Inr (None, zero_window_extractor)"
    by (simp add: compute_symmetry_def raise_bind_Inr landmark_at_in_range Let_def
        LEFT_CHEEK_def RIGHT_CHEEK_def NOSE_TIP_def zero_window_push)
qed

section \<open>Construction of the scorer\<close>



end
